theory Spec2Isabelle
  imports Complex_Main "HOL-Library.Product_Lexorder" "HOL-Library.Char_ord"
    "HOL-Library.List_Lexorder"
begin

section \<open>make\_recs.py: the recommendation expander\<close>

text \<open>
  Python values are modelled as follows. A dictionary field read with \<open>.get\<close> is an
  \<open>option\<close> (\<open>None\<close> when the key is absent or holds \<open>None\<close>). Python integers are
  \<open>int\<close>. The three module constants \<open>TOP_PER_ARTIST\<close>, \<open>RELATED_PER_SEED\<close> and
  \<open>TARGET_TRACKS\<close> are the fields of the record \<open>params\<close>, so that statements can range
  over their values; the source binds them to 6, 12 and 150.
\<close>

record params =
  TOP_PER_ARTIST :: int
  RELATED_PER_SEED :: int
  TARGET_TRACKS :: int

definition default_params :: params where
  "default_params = \<lparr>TOP_PER_ARTIST = 6, RELATED_PER_SEED = 12, TARGET_TRACKS = 150\<rparr>"

text \<open>An artist object as it appears inside a track or in a related-artists answer.\<close>

record artist_ref =
  ar_id :: "string option"
  ar_name :: "string option"

text \<open>
  A track object of the provider. \<open>tr_album\<close> is \<open>None\<close> when the track has no album
  object, and \<open>Some n\<close> when it has one whose \<open>name\<close> field reads \<open>n\<close>.
\<close>

record track =
  tr_id :: "string option"
  tr_name :: "string option"
  tr_artists :: "artist_ref list"
  tr_album :: "string option option"
  tr_popularity :: "int option"

text \<open>The row built by \<open>as_row\<close>.\<close>

record row =
  track_id :: "string option"
  name :: "string option"
  artist_id :: "string option"
  artist_name :: "string option"
  album :: "string option"
  popularity :: "int option"
  source :: string

text \<open>
  A call of the client either raises or returns a dictionary; \<open>Returns None\<close> stands for
  a dictionary whose list (\<open>tracks\<close> or \<open>artists\<close>) is absent or \<open>None\<close>.
\<close>

datatype exn = SpotifyException | OtherException

datatype 'a response = Raises exn | Returns "'a list option"

datatype call = TopTracks string | Related string

text \<open>
  The client \<open>sp\<close>. Its answers may change from one call to the next, so each method
  also receives the number of calls that the run has made before this one.
\<close>

record provider =
  artist_top_tracks :: "nat \<Rightarrow> string \<Rightarrow> track response"
  artist_related_artists :: "nat \<Rightarrow> string \<Rightarrow> artist_ref response"

text \<open>Python's \<open>xs[:n]\<close>: a negative \<open>n\<close> counts from the end.\<close>

definition py_take :: "int \<Rightarrow> 'a list \<Rightarrow> 'a list" where
  "py_take n xs = (if 0 \<le> n then take (nat n) xs else take (length xs - nat (- n)) xs)"

text \<open>\<open>str(x or "")\<close> for an optional string.\<close>

definition str_or_empty :: "string option \<Rightarrow> string" where
  "str_or_empty x = (case x of None \<Rightarrow> [] | Some s \<Rightarrow> s)"

definition get_related :: "provider \<Rightarrow> nat \<Rightarrow> string \<Rightarrow> artist_ref list" where
  "get_related sp k a =
     (case artist_related_artists sp k a of
        Raises e \<Rightarrow> []
      | Returns None \<Rightarrow> []
      | Returns (Some xs) \<Rightarrow> xs)"

definition get_top_tracks :: "provider \<Rightarrow> nat \<Rightarrow> string \<Rightarrow> track list" where
  "get_top_tracks sp k a =
     (case artist_top_tracks sp k a of
        Raises e \<Rightarrow> []
      | Returns None \<Rightarrow> []
      | Returns (Some ts) \<Rightarrow> ts)"

definition tracks_from_artist :: "provider \<Rightarrow> nat \<Rightarrow> string \<Rightarrow> int \<Rightarrow> track list" where
  "tracks_from_artist sp k a per_artist =
     (let tracks = get_top_tracks sp k a
      in if tracks \<noteq> [] then py_take per_artist tracks else [])"

definition as_row :: "track \<Rightarrow> string \<Rightarrow> row" where
  "as_row t src =
     (let arts = tr_artists t;
          a0 = (case arts of [] \<Rightarrow> \<lparr>ar_id = None, ar_name = None\<rparr> | a # _ \<Rightarrow> a)
      in \<lparr>track_id = tr_id t,
          name = tr_name t,
          artist_id = ar_id a0,
          artist_name = ar_name a0,
          album = (case tr_album t of None \<Rightarrow> None | Some n \<Rightarrow> n),
          popularity = tr_popularity t,
          source = src\<rparr>)"

fun dedup_loop :: "row list \<Rightarrow> string set \<Rightarrow> row list \<Rightarrow> row list" where
  "dedup_loop [] seen out = out"
| "dedup_loop (r # rs) seen out =
     (let tid = str_or_empty (track_id r)
      in if tid \<noteq> [] \<and> tid \<notin> seen
         then dedup_loop rs (insert tid seen) (out @ [r])
         else dedup_loop rs seen out)"

definition dedup_rows :: "row list \<Rightarrow> row list" where
  "dedup_rows rows = dedup_loop rows {} []"

text \<open>
  The owned catalog, as far as \<open>remove_owned\<close> reads it: \<open>None\<close> when the data frame has
  no \<open>track_id\<close> column, otherwise that column, a cell being \<open>None\<close> when it is NaN and
  the string that \<open>astype(str)\<close> gives otherwise. A frame without rows is \<open>Some []\<close>.
\<close>

type_synonym catalog_df = "string option list option"

fun dropna :: "'a option list \<Rightarrow> 'a list" where
  "dropna [] = []"
| "dropna (None # xs) = dropna xs"
| "dropna (Some x # xs) = x # dropna xs"

definition owned_ids :: "catalog_df \<Rightarrow> string set" where
  "owned_ids catalog = (case catalog of None \<Rightarrow> {} | Some col \<Rightarrow> set (dropna col))"

definition remove_owned :: "row list \<Rightarrow> catalog_df \<Rightarrow> row list" where
  "remove_owned rows catalog =
     (case catalog of
        None \<Rightarrow> rows
      | Some col \<Rightarrow>
          if col = [] then rows
          else (let owned = set (dropna col)
                in filter (\<lambda>r. str_or_empty (track_id r) \<notin> owned) rows))"

text \<open>The local function \<open>sort_key\<close> of \<open>gen_for_seeds\<close>; pairs are compared lexicographically.\<close>

definition sort_key_row :: "row \<Rightarrow> int \<times> int" where
  "sort_key_row r =
     (let pri = (if source r = ''seed_top'' then 0 else 1);
          pop = (case popularity r of None \<Rightarrow> 0 | Some p \<Rightarrow> p)
      in (pri, - pop))"

text \<open>The state of the collecting loop, with the log of the provider calls made so far.\<close>

record collect_state =
  rows :: "row list"
  used_artists :: "string set"
  calls :: "call list"

definition init_state :: collect_state where
  "init_state = \<lparr>rows = [], used_artists = {}, calls = []\<rparr>"

definition fetch_rows :: "params \<Rightarrow> provider \<Rightarrow> string \<Rightarrow> string \<Rightarrow> collect_state \<Rightarrow> collect_state" where
  "fetch_rows cfg sp a src s =
     s\<lparr>rows := rows s @ map (\<lambda>t. as_row t src)
                  (tracks_from_artist sp (length (calls s)) a (TOP_PER_ARTIST cfg)),
       calls := calls s @ [TopTracks a]\<rparr>"

fun related_loop :: "params \<Rightarrow> provider \<Rightarrow> string list \<Rightarrow> collect_state \<Rightarrow> collect_state" where
  "related_loop cfg sp [] s = s"
| "related_loop cfg sp (rid # rids) s =
     (if rid \<in> used_artists s then related_loop cfg sp rids s
      else related_loop cfg sp rids
             (fetch_rows cfg sp rid ''by_related_top''
                (s\<lparr>used_artists := insert rid (used_artists s)\<rparr>)))"

text \<open>\<open>[a.get("id") for a in related if a.get("id")][:RELATED_PER_SEED]\<close>\<close>

definition rel_ids_of :: "params \<Rightarrow> artist_ref list \<Rightarrow> string list" where
  "rel_ids_of cfg related =
     py_take (RELATED_PER_SEED cfg) (filter (\<lambda>i. i \<noteq> []) (dropna (map ar_id related)))"

definition seed_step :: "params \<Rightarrow> provider \<Rightarrow> string \<Rightarrow> collect_state \<Rightarrow> collect_state" where
  "seed_step cfg sp seed s =
     (let s1 = fetch_rows cfg sp seed ''seed_top'' s
      in if RELATED_PER_SEED cfg > 0
         then (let related = get_related sp (length (calls s1)) seed;
                   rel_ids = rel_ids_of cfg related
               in related_loop cfg sp rel_ids (s1\<lparr>calls := calls s1 @ [Related seed]\<rparr>))
         else s1)"

fun seed_loop :: "params \<Rightarrow> provider \<Rightarrow> string list \<Rightarrow> collect_state \<Rightarrow> collect_state" where
  "seed_loop cfg sp [] s = s"
| "seed_loop cfg sp (seed # seeds) s =
     (let s2 = seed_step cfg sp seed s
      in if int (length (rows s2)) \<ge> TARGET_TRACKS cfg * 2 then s2
         else seed_loop cfg sp seeds s2)"

definition collect :: "params \<Rightarrow> provider \<Rightarrow> string list \<Rightarrow> collect_state" where
  "collect cfg sp seed_artist_ids = seed_loop cfg sp seed_artist_ids init_state"

definition post_process :: "params \<Rightarrow> row list \<Rightarrow> catalog_df \<Rightarrow> row list" where
  "post_process cfg raw catalog =
     (let rows1 = dedup_rows raw;
          rows2 = remove_owned rows1 catalog;
          rows3 = sort_key sort_key_row rows2
      in if int (length rows3) > TARGET_TRACKS cfg
         then py_take (TARGET_TRACKS cfg) rows3 else rows3)"

definition gen_for_seeds :: "params \<Rightarrow> provider \<Rightarrow> string list \<Rightarrow> catalog_df \<Rightarrow> row list" where
  "gen_for_seeds cfg sp seed_artist_ids catalog =
     post_process cfg (rows (collect cfg sp seed_artist_ids)) catalog"

text \<open>The provider calls that a run makes, in order.\<close>

definition gen_calls :: "params \<Rightarrow> provider \<Rightarrow> string list \<Rightarrow> call list" where
  "gen_calls cfg sp seed_artist_ids = calls (collect cfg sp seed_artist_ids)"


text \<open>Concrete data used to exercise the statements below.\<close>

definition demo_track :: "string \<Rightarrow> int \<Rightarrow> track" where
  "demo_track i p =
     \<lparr>tr_id = Some i, tr_name = Some i, tr_artists = [], tr_album = None,
      tr_popularity = Some p\<rparr>"

definition scenario_sp :: provider where
  "scenario_sp =
     \<lparr>artist_top_tracks = (\<lambda>k a.
          if a = ''a1''
          then Returns (Some [demo_track ''t10'' 10, demo_track ''t50'' 50, demo_track ''t30'' 30])
          else Returns None),
      artist_related_artists = (\<lambda>k a. Returns None)\<rparr>"

definition scenario_params :: params where
  "scenario_params = \<lparr>TOP_PER_ARTIST = 3, RELATED_PER_SEED = 0, TARGET_TRACKS = 150\<rparr>"

definition mixed_tracks :: "track list" where
  "mixed_tracks =
     [demo_track ''t1'' 10, demo_track ''t2'' 50, (demo_track ''x'' 99)\<lparr>tr_id := None\<rparr>,
      demo_track ''t1'' 70, (demo_track ''y'' 80)\<lparr>tr_id := Some []\<rparr>, demo_track ''t3'' 30]"

definition mixed_sp :: provider where
  "mixed_sp =
     \<lparr>artist_top_tracks = (\<lambda>k a.
          if a = ''a1'' then Returns (Some mixed_tracks) else Raises SpotifyException),
      artist_related_artists = (\<lambda>k a. Raises OtherException)\<rparr>"

definition mixed_params :: params where
  "mixed_params = \<lparr>TOP_PER_ARTIST = 6, RELATED_PER_SEED = 0, TARGET_TRACKS = 1\<rparr>"

definition mixed_catalog :: catalog_df where
  "mixed_catalog = Some [Some ''t2'', None]"

text \<open>
  The client in which every raising call is replaced by a call that returns an empty
  list; used to state that a failure counts as "zero results".
\<close>

definition absorb_failures :: "provider \<Rightarrow> provider" where
  "absorb_failures sp =
     \<lparr>artist_top_tracks = (\<lambda>k a. case artist_top_tracks sp k a of
          Raises e \<Rightarrow> Returns (Some []) | Returns x \<Rightarrow> Returns x),
      artist_related_artists = (\<lambda>k a. case artist_related_artists sp k a of
          Raises e \<Rightarrow> Returns (Some []) | Returns x \<Rightarrow> Returns x)\<rparr>"

text \<open>The artists of the top-tracks calls in a call log.\<close>

fun top_track_artists :: "call list \<Rightarrow> string list" where
  "top_track_artists [] = []"
| "top_track_artists (TopTracks a # cs) = a # top_track_artists cs"
| "top_track_artists (Related a # cs) = top_track_artists cs"

text \<open>
  The related artists whose top tracks are fetched while one seed is processed: the
  top-tracks calls that follow the seed's own two calls.
\<close>

definition expanded_related :: "params \<Rightarrow> provider \<Rightarrow> string \<Rightarrow> collect_state \<Rightarrow> string list" where
  "expanded_related cfg sp seed s =
     top_track_artists (drop (length (calls s) + 2) (calls (seed_step cfg sp seed s)))"

text \<open>
  Following the words of the specification (not the source): "take the first
  \<open>related_per_seed\<close> ids not already in \<open>visited\<close>".
\<close>

definition related_to_expand_spec :: "int \<Rightarrow> string set \<Rightarrow> string list \<Rightarrow> string list" where
  "related_to_expand_spec n visited ids = py_take n (filter (\<lambda>i. i \<notin> visited) ids)"

text \<open>The ids of a list that are not in \<open>U\<close>, each at its first occurrence only.\<close>

abbreviation first_new :: "string set \<Rightarrow> string list \<Rightarrow> string list" where
  "first_new U ids \<equiv> filter (\<lambda>i. i \<notin> U) (rev (remdups (rev ids)))"

definition shared_sp :: provider where
  "shared_sp =
     \<lparr>artist_top_tracks = (\<lambda>k a. Returns (Some [demo_track (a @ ''-top'') 1])),
      artist_related_artists = (\<lambda>k a.
          if a = ''s1'' then Returns (Some [\<lparr>ar_id = Some ''r1'', ar_name = None\<rparr>])
          else if a = ''s2''
          then Returns (Some [\<lparr>ar_id = Some ''r1'', ar_name = None\<rparr>,
                              \<lparr>ar_id = Some ''r2'', ar_name = None\<rparr>])
          else Returns None)\<rparr>"

definition shared_params :: params where
  "shared_params = \<lparr>TOP_PER_ARTIST = 1, RELATED_PER_SEED = 1, TARGET_TRACKS = 150\<rparr>"

definition failing_params :: params where
  "failing_params = \<lparr>TOP_PER_ARTIST = 6, RELATED_PER_SEED = 2, TARGET_TRACKS = 150\<rparr>"

definition zero_params :: params where
  "zero_params = \<lparr>TOP_PER_ARTIST = 6, RELATED_PER_SEED = 12, TARGET_TRACKS = 0\<rparr>"

section \<open>build\_catalog.py: the catalog and the profile\<close>

text \<open>
  A cell of a data frame column that \<open>astype(str)\<close> has converted is a \<open>string\<close>; a
  cell that may be NaN is an \<open>option\<close>. Strings are lists of characters with code
  points below 256. The weights are the decimal constants of the source (1.0, 1.3, 1.5,
  1.6, 2.0, 2.2), kept as rationals: canonicalization only compares them, and their
  order as floats is their order as rationals. The counters \<open>counter_add\<close>,
  \<open>artist_counter\<close> and \<open>genre_counter\<close> add in the rationals; the only sums whose
  value a statement gives with them are sums of the weight 1.0, which floating point
  computes exactly. \<open>counter_add_by\<close> and \<open>artist_counter_by\<close> leave the addition
  open, and the statement about accumulated artist scores is made for them.
\<close>

text \<open>A row of \<open>saved_tracks.csv\<close>, \<open>top_tracks.csv\<close> or \<open>recently_played.csv\<close>.\<close>

record raw_record =
  in_track_id :: string
  in_artist_id :: string
  in_artist_name :: string
  in_time_range :: "string option"

text \<open>A row of \<open>artists.csv\<close>.\<close>

record artist_meta =
  am_artist_id :: string
  am_genres :: "string option"

text \<open>A row of \<open>all_rows\<close>, with the columns that the statements below read.\<close>

record catalog_row =
  c_track_id :: string
  c_artist_id :: string
  c_artist_name :: string
  c_source :: string
  c_weight :: rat
  c_genres :: "string option"

definition saved_rows :: "raw_record list \<Rightarrow> catalog_row list" where
  "saved_rows saved =
     map (\<lambda>x. \<lparr>c_track_id = in_track_id x, c_artist_id = in_artist_id x,
                c_artist_name = in_artist_name x, c_source = ''saved'', c_weight = 1,
                c_genres = None\<rparr>) saved"

text \<open>\<open>top["time_range"].map({...}).fillna(1.5)\<close>, and 1.5 without the column.\<close>

definition top_weight :: "string option \<Rightarrow> rat" where
  "top_weight tr =
     (if tr = Some ''short_term'' then 2
      else if tr = Some ''medium_term'' then 16 / 10
      else if tr = Some ''long_term'' then 13 / 10
      else 15 / 10)"

definition top_rows :: "raw_record list \<Rightarrow> catalog_row list" where
  "top_rows top_df =
     map (\<lambda>x. \<lparr>c_track_id = in_track_id x, c_artist_id = in_artist_id x,
                c_artist_name = in_artist_name x, c_source = ''top'',
                c_weight = top_weight (in_time_range x), c_genres = None\<rparr>) top_df"

definition recent_rows :: "raw_record list \<Rightarrow> catalog_row list" where
  "recent_rows recent =
     map (\<lambda>x. \<lparr>c_track_id = in_track_id x, c_artist_id = in_artist_id x,
                c_artist_name = in_artist_name x, c_source = ''recent'', c_weight = 22 / 10,
                c_genres = None\<rparr>) recent"

text \<open>
  The left merge with the artist table, of which the first row of each \<open>artist_id\<close> is
  used and whose NaN genres are replaced by the empty string. A row without a matching
  artist gets NaN; without an artist table the column is filled with the empty string.
\<close>

definition merge_artists :: "artist_meta list \<Rightarrow> catalog_row list \<Rightarrow> catalog_row list" where
  "merge_artists artists all_rows =
     (if artists = [] then map (\<lambda>r. r\<lparr>c_genres := Some []\<rparr>) all_rows
      else map (\<lambda>r. r\<lparr>c_genres :=
                 (case find (\<lambda>a. am_artist_id a = c_artist_id r) artists of
                    None \<Rightarrow> None
                  | Some a \<Rightarrow> Some (case am_genres a of None \<Rightarrow> [] | Some g \<Rightarrow> g))\<rparr>)
             all_rows)"

text \<open>\<open>drop_duplicates(subset=["track_id"], keep="first")\<close>\<close>

fun drop_duplicates_loop :: "catalog_row list \<Rightarrow> string set \<Rightarrow> catalog_row list" where
  "drop_duplicates_loop [] seen = []"
| "drop_duplicates_loop (r # rs) seen =
     (if c_track_id r \<in> seen then drop_duplicates_loop rs seen
      else r # drop_duplicates_loop rs (insert (c_track_id r) seen))"

definition drop_duplicates :: "catalog_row list \<Rightarrow> catalog_row list" where
  "drop_duplicates rs = drop_duplicates_loop rs {}"

text \<open>
  \<open>sort_values(["track_id", "weight"], ascending=[True, False])\<close>, a stable sort, followed
  by \<open>drop_duplicates\<close>.
\<close>

definition canonicalize :: "catalog_row list \<Rightarrow> catalog_row list" where
  "canonicalize all_rows =
     drop_duplicates (sort_key (\<lambda>r. (c_track_id r, - c_weight r)) all_rows)"

text \<open>
  The catalog that \<open>main\<close> writes; \<open>None\<close> when the three inputs are all empty and
  \<open>main\<close> returns early.
\<close>

definition build_catalog ::
  "raw_record list \<Rightarrow> raw_record list \<Rightarrow> raw_record list \<Rightarrow> artist_meta list
     \<Rightarrow> catalog_row list option" where
  "build_catalog saved top_df recent artists =
     (if saved = [] \<and> top_df = [] \<and> recent = [] then None
      else Some (canonicalize
             (merge_artists artists (saved_rows saved @ top_rows top_df @ recent_rows recent))))"

text \<open>Python's \<open>str.isspace\<close> on code points below 256, \<open>str.strip()\<close> and \<open>str.split(",")\<close>.\<close>

definition is_space :: "char \<Rightarrow> bool" where
  "is_space c = (c \<in> set [CHR 0x09, CHR 0x0A, CHR 0x0B, CHR 0x0C, CHR 0x0D, CHR 0x1C,
                           CHR 0x1D, CHR 0x1E, CHR 0x1F, CHR 0x20, CHR 0x85, CHR 0xA0])"

definition strip :: "string \<Rightarrow> string" where
  "strip s = rev (dropWhile is_space (rev (dropWhile is_space s)))"

fun split_comma :: "string \<Rightarrow> string list" where
  "split_comma [] = [[]]"
| "split_comma (c # cs) =
     (if c = CHR '','' then [] # split_comma cs
      else (case split_comma cs of [] \<Rightarrow> [[c]] | p # ps \<Rightarrow> (c # p) # ps))"

definition split_genres :: "string option \<Rightarrow> string list" where
  "split_genres x =
     (case x of
        None \<Rightarrow> []
      | Some s \<Rightarrow>
          if strip s = [] then []
          else map strip (filter (\<lambda>g. strip g \<noteq> []) (split_comma s)))"

text \<open>
  A \<open>Counter\<close>, as the list of its entries in insertion order. \<open>counter[k] += w\<close> adds to
  the entry of \<open>k\<close>, or appends a new entry holding \<open>0 + w\<close>.
\<close>

fun counter_add :: "('k \<times> rat) list \<Rightarrow> 'k \<Rightarrow> rat \<Rightarrow> ('k \<times> rat) list" where
  "counter_add [] k w = [(k, 0 + w)]"
| "counter_add ((k', v) # kvs) k w =
     (if k' = k then (k', v + w) # kvs else (k', v) # counter_add kvs k w)"

text \<open>\<open>float(row.get("weight", 1.0) or 1.0)\<close>\<close>

definition row_weight :: "catalog_row \<Rightarrow> rat" where
  "row_weight r = (if c_weight r = 0 then 1 else c_weight r)"

fun artist_counter_loop ::
  "catalog_row list \<Rightarrow> ((string \<times> string) \<times> rat) list \<Rightarrow> ((string \<times> string) \<times> rat) list" where
  "artist_counter_loop [] acc = acc"
| "artist_counter_loop (r # rs) acc =
     (let w = row_weight r; a_id = c_artist_id r; a_nm = c_artist_name r
      in artist_counter_loop rs
           (if a_id \<noteq> [] then counter_add acc (a_id, a_nm) w else acc))"

definition artist_counter :: "catalog_row list \<Rightarrow> ((string \<times> string) \<times> rat) list" where
  "artist_counter all_rows = artist_counter_loop all_rows []"

fun genre_counter_loop ::
  "catalog_row list \<Rightarrow> (string \<times> rat) list \<Rightarrow> (string \<times> rat) list" where
  "genre_counter_loop [] acc = acc"
| "genre_counter_loop (r # rs) acc =
     genre_counter_loop rs
       (foldl (\<lambda>c g. counter_add c g (row_weight r)) acc (split_genres (c_genres r)))"

definition genre_counter :: "catalog_row list \<Rightarrow> (string \<times> rat) list" where
  "genre_counter all_rows = genre_counter_loop all_rows []"

section \<open>compare\_recs.py: the artist-to-genre lookup\<close>

text \<open>Python's \<open>str.lower()\<close> on code points below 256.\<close>

definition lower_char :: "char \<Rightarrow> char" where
  "lower_char c =
     (let n = (of_char c :: nat)
      in if (65 \<le> n \<and> n \<le> 90) \<or> (192 \<le> n \<and> n \<le> 222 \<and> n \<noteq> 215)
         then char_of (n + 32) else c)"

definition lower :: "string \<Rightarrow> string" where
  "lower s = map lower_char s"

text \<open>The list that \<open>genres_map_from_artists\<close> stores for one row of the artist table.\<close>

definition glist_of :: "string option \<Rightarrow> string list" where
  "glist_of val =
     (case val of
        None \<Rightarrow> []
      | Some s \<Rightarrow>
          if strip s = [] then []
          else map strip
                 (filter (\<lambda>g. strip g \<noteq> [] \<and> lower (strip g) \<noteq> ''nan'') (split_comma s)))"

fun genres_map_loop ::
  "artist_meta list \<Rightarrow> (string \<rightharpoonup> string list) \<Rightarrow> (string \<rightharpoonup> string list)" where
  "genres_map_loop [] gm = gm"
| "genres_map_loop (row # rest) gm =
     genres_map_loop rest (gm(am_artist_id row \<mapsto> glist_of (am_genres row)))"

definition genres_map_from_artists :: "artist_meta list \<Rightarrow> (string \<rightharpoonup> string list)" where
  "genres_map_from_artists artists_df = genres_map_loop artists_df Map.empty"

text \<open>Concrete data for the catalog and the profile.\<close>

definition one_track_twice :: "raw_record" where
  "one_track_twice =
     \<lparr>in_track_id = ''t1'', in_artist_id = ''a1'', in_artist_name = ''A'', in_time_range = None\<rparr>"

definition two_names :: "catalog_row list" where
  "two_names =
     [\<lparr>c_track_id = ''t1'', c_artist_id = ''a1'', c_artist_name = ''Abba'', c_source = ''saved'',
       c_weight = 1, c_genres = Some ''rock,nan''\<rparr>,
      \<lparr>c_track_id = ''t2'', c_artist_id = ''a1'', c_artist_name = ''ABBA'', c_source = ''saved'',
       c_weight = 1, c_genres = Some ''rock,nan''\<rparr>]"

text \<open>
  The candidates after deduplication and the owned-catalog filter, in collection order:
  the list that \<open>gen_for_seeds\<close> sorts.
\<close>

definition filtered_rows :: "params \<Rightarrow> provider \<Rightarrow> string list \<Rightarrow> catalog_df \<Rightarrow> row list" where
  "filtered_rows cfg sp seeds catalog =
     remove_owned (dedup_rows (rows (collect cfg sp seeds))) catalog"

text \<open>
  A run with both source tiers, two equal popularities in each tier, a missing
  popularity and a target that cuts the last row.
\<close>

definition tiered_sp :: provider where
  "tiered_sp =
     \<lparr>artist_top_tracks = (\<lambda>k a.
          if a = ''s1''
          then Returns (Some [demo_track ''a'' 10, demo_track ''b'' 50, demo_track ''c'' 50])
          else if a = ''r1''
          then Returns (Some [(demo_track ''e'' 0)\<lparr>tr_popularity := None\<rparr>, demo_track ''d'' 90,
                              demo_track ''f'' 0])
          else Returns None),
      artist_related_artists = (\<lambda>k a.
          if a = ''s1'' then Returns (Some [\<lparr>ar_id = Some ''r1'', ar_name = None\<rparr>])
          else Returns None)\<rparr>"

definition tiered_params :: params where
  "tiered_params = \<lparr>TOP_PER_ARTIST = 3, RELATED_PER_SEED = 1, TARGET_TRACKS = 5\<rparr>"

text \<open>
  The counter of the profile with the addition left open: \<open>fadd\<close> stands for the
  floating-point addition of the source, and nothing is assumed about it. \<open>counter_add\<close>
  and \<open>artist_counter\<close> above are the instances for the exact addition of rationals.
\<close>

fun counter_add_by ::
  "(rat \<Rightarrow> rat \<Rightarrow> rat) \<Rightarrow> ('k \<times> rat) list \<Rightarrow> 'k \<Rightarrow> rat \<Rightarrow> ('k \<times> rat) list" where
  "counter_add_by fadd [] k w = [(k, fadd 0 w)]"
| "counter_add_by fadd ((k', v) # kvs) k w =
     (if k' = k then (k', fadd v w) # kvs else (k', v) # counter_add_by fadd kvs k w)"

fun artist_counter_loop_by ::
  "(rat \<Rightarrow> rat \<Rightarrow> rat) \<Rightarrow> catalog_row list \<Rightarrow> ((string \<times> string) \<times> rat) list
     \<Rightarrow> ((string \<times> string) \<times> rat) list" where
  "artist_counter_loop_by fadd [] acc = acc"
| "artist_counter_loop_by fadd (r # rs) acc =
     (let w = row_weight r; a_id = c_artist_id r; a_nm = c_artist_name r
      in artist_counter_loop_by fadd rs
           (if a_id \<noteq> [] then counter_add_by fadd acc (a_id, a_nm) w else acc))"

definition artist_counter_by ::
  "(rat \<Rightarrow> rat \<Rightarrow> rat) \<Rightarrow> catalog_row list \<Rightarrow> ((string \<times> string) \<times> rat) list" where
  "artist_counter_by fadd all_rows = artist_counter_loop_by fadd all_rows []"

text \<open>
  The weights, in order, of the rows that carry the pair \<open>k\<close> of artist id and artist
  name and a non-empty artist id.
\<close>

abbreviation weights_of :: "string \<times> string \<Rightarrow> catalog_row list \<Rightarrow> rat list" where
  "weights_of k rs \<equiv>
     map row_weight
       (filter (\<lambda>r. c_artist_id r \<noteq> [] \<and> (c_artist_id r, c_artist_name r) = k) rs)"

text \<open>Shorthands used in the statements: the id string that \<open>dedup_rows\<close> and
  \<open>remove_owned\<close> compare, and the sort key of the canonicalization.\<close>

abbreviation tid :: "row \<Rightarrow> string" where
  "tid r \<equiv> str_or_empty (track_id r)"

abbreviation ckey :: "catalog_row \<Rightarrow> string \<times> rat" where
  "ckey r \<equiv> (c_track_id r, - c_weight r)"

section \<open>Properties of the recommendation expander\<close>

subsection \<open>Auxiliary facts about the post-collection pipeline\<close>

lemma dedup_loop_distinct:
  "distinct (map tid out) \<Longrightarrow> tid ` set out \<subseteq> seen
   \<Longrightarrow> distinct (map tid (dedup_loop rs seen out))"
  by (induction rs seen out rule: dedup_loop.induct) (auto simp: Let_def)

lemma dedup_loop_mem:
  "r \<in> set (dedup_loop rs seen out) \<Longrightarrow> r \<in> set out \<or> (r \<in> set rs \<and> tid r \<noteq> [])"
proof (induction rs seen out rule: dedup_loop.induct)
  case (1 seen out)
  then show ?case by simp
next
  case (2 r' rs seen out)
  show ?case
  proof (cases "tid r' \<noteq> [] \<and> tid r' \<notin> seen")
    case True
    with 2 have "r \<in> set (out @ [r']) \<or> (r \<in> set rs \<and> tid r \<noteq> [])" by simp
    with True show ?thesis by auto
  next
    case False
    with 2 have "r \<in> set out \<or> (r \<in> set rs \<and> tid r \<noteq> [])" by simp
    then show ?thesis by auto
  qed
qed

lemma dedup_rows_mem: "r \<in> set (dedup_rows raw) \<Longrightarrow> r \<in> set raw \<and> tid r \<noteq> []"
  using dedup_loop_mem[of r raw "{}" "[]"] by (simp add: dedup_rows_def)

lemma distinct_tid_track_id: "distinct (map tid xs) \<Longrightarrow> distinct (map track_id xs)"
  by (induction xs) (auto simp: image_iff)

lemma py_take_set: "set (py_take n xs) \<subseteq> set xs"
  by (auto simp: py_take_def dest: in_set_takeD)

lemma py_take_distinct: "distinct (map f xs) \<Longrightarrow> distinct (map f (py_take n xs))"
  by (simp add: py_take_def flip: take_map)

lemma py_take_length: "0 \<le> n \<Longrightarrow> int (length (py_take n xs)) \<le> n"
  by (simp add: py_take_def)

lemma remove_owned_distinct: "distinct (map f rs) \<Longrightarrow> distinct (map f (remove_owned rs c))"
  by (auto simp: remove_owned_def Let_def distinct_map_filter split: option.splits)

lemma remove_owned_mem:
  "r \<in> set (remove_owned rs c) \<Longrightarrow> r \<in> set rs \<and> tid r \<notin> owned_ids c"
  by (auto simp: remove_owned_def owned_ids_def Let_def split: option.splits if_splits)

lemma remove_owned_id:
  "\<forall>r\<in>set rs. tid r \<notin> owned_ids c \<Longrightarrow> remove_owned rs c = rs"
  by (auto simp: remove_owned_def owned_ids_def Let_def split: option.splits)

lemma distinct_map_sort_key: "distinct (map f (sort_key k xs)) = distinct (map f xs)"
proof -
  have "distinct (map f ys) = (card (f ` set ys) = length ys)" for ys
    using distinct_card[of "map f ys"] card_distinct[of "map f ys"] by auto
  from this[of "sort_key k xs"] this[of xs] show ?thesis by simp
qed

lemma filter_take_prefix:
  "filter P (take n xs) = take (length (filter P (take n xs))) (filter P xs)"
proof (induction xs arbitrary: n)
  case Nil
  then show ?case by simp
next
  case (Cons x xs)
  then show ?case by (cases n) auto
qed

lemma post_process_take:
  "\<exists>m. post_process cfg raw c = take m (sort_key sort_key_row (remove_owned (dedup_rows raw) c))"
proof (cases "int (length (sort_key sort_key_row (remove_owned (dedup_rows raw) c)))
                > TARGET_TRACKS cfg")
  case True
  then show ?thesis by (auto simp: post_process_def Let_def py_take_def)
next
  case False
  then have "post_process cfg raw c
      = take (length (remove_owned (dedup_rows raw) c))
          (sort_key sort_key_row (remove_owned (dedup_rows raw) c))"
    by (simp add: post_process_def Let_def)
  then show ?thesis by blast
qed

lemma post_process_mem:
  "r \<in> set (post_process cfg raw c) \<Longrightarrow> r \<in> set (remove_owned (dedup_rows raw) c)"
proof -
  assume r: "r \<in> set (post_process cfg raw c)"
  obtain m where "post_process cfg raw c
      = take m (sort_key sort_key_row (remove_owned (dedup_rows raw) c))"
    using post_process_take by blast
  with r have "r \<in> set (sort_key sort_key_row (remove_owned (dedup_rows raw) c))"
    by (auto dest: in_set_takeD)
  then show ?thesis by simp
qed

lemma post_process_distinct: "distinct (map track_id (post_process cfg raw c))"
proof -
  have "distinct (map tid (dedup_rows raw))"
    unfolding dedup_rows_def by (rule dedup_loop_distinct) simp_all
  then have "distinct (map track_id (dedup_rows raw))" by (rule distinct_tid_track_id)
  then have "distinct (map track_id (sort_key sort_key_row (remove_owned (dedup_rows raw) c)))"
    by (simp add: distinct_map_sort_key remove_owned_distinct)
  then show ?thesis
    by (simp add: post_process_def Let_def py_take_distinct)
qed

lemma post_process_length:
  "0 \<le> TARGET_TRACKS cfg \<Longrightarrow> int (length (post_process cfg raw c)) \<le> TARGET_TRACKS cfg"
  by (simp add: post_process_def Let_def py_take_length)

lemma post_process_sorted: "sorted (map sort_key_row (post_process cfg raw c))"
proof -
  obtain m where m: "post_process cfg raw c
      = take m (sort_key sort_key_row (remove_owned (dedup_rows raw) c))"
    using post_process_take by blast
  have "sorted (take m (map sort_key_row
          (sort_key sort_key_row (remove_owned (dedup_rows raw) c))))"
    by (rule sorted_wrt_take) simp
  then show ?thesis by (simp add: m take_map)
qed

lemma post_process_stable:
  "\<exists>m. filter (\<lambda>r. sort_key_row r = k) (post_process cfg raw c)
     = take m (filter (\<lambda>r. sort_key_row r = k) (remove_owned (dedup_rows raw) c))"
proof -
  let ?pre = "remove_owned (dedup_rows raw) c"
  obtain m where m: "post_process cfg raw c = take m (sort_key sort_key_row ?pre)"
    using post_process_take by blast
  have "filter (\<lambda>r. sort_key_row r = k) (take m (sort_key sort_key_row ?pre))
      = take (length (filter (\<lambda>r. sort_key_row r = k) (take m (sort_key sort_key_row ?pre))))
          (filter (\<lambda>r. sort_key_row r = k) (sort_key sort_key_row ?pre))"
    by (rule filter_take_prefix)
  also have "filter (\<lambda>r. sort_key_row r = k) (sort_key sort_key_row ?pre)
      = filter (\<lambda>r. sort_key_row r = k) ?pre"
    by (rule sort_key_stable)
  finally show ?thesis unfolding m by blast
qed

lemma single_seed_three_tracks:
  assumes cfg: "TOP_PER_ARTIST cfg = 3" "RELATED_PER_SEED cfg = 0" "3 \<le> TARGET_TRACKS cfg"
    and sp: "artist_top_tracks sp 0 a1 = Returns (Some [t1, t2, t3])"
    and pop: "tr_popularity t1 = Some 10" "tr_popularity t2 = Some 50" "tr_popularity t3 = Some 30"
    and ids: "tr_id t1 = Some i1" "tr_id t2 = Some i2" "tr_id t3 = Some i3"
      "i1 \<noteq> []" "i2 \<noteq> []" "i3 \<noteq> []" "distinct [i1, i2, i3]"
    and own: "i1 \<notin> owned_ids catalog" "i2 \<notin> owned_ids catalog" "i3 \<notin> owned_ids catalog"
  shows "gen_for_seeds cfg sp [a1] catalog
       = [as_row t2 ''seed_top'', as_row t3 ''seed_top'', as_row t1 ''seed_top'']"
proof -
  let ?raw = "[as_row t1 ''seed_top'', as_row t2 ''seed_top'', as_row t3 ''seed_top'']"
  have raw: "rows (collect cfg sp [a1]) = ?raw"
    using cfg sp
    by (simp add: collect_def seed_step_def fetch_rows_def tracks_from_artist_def
        get_top_tracks_def py_take_def init_state_def Let_def)
  have dd: "dedup_rows ?raw = ?raw"
    using ids by (auto simp add: dedup_rows_def as_row_def str_or_empty_def Let_def)
  have ro: "remove_owned ?raw catalog = ?raw"
    by (rule remove_owned_id) (use ids own in \<open>simp add: as_row_def str_or_empty_def Let_def\<close>)
  have srt: "sort_key sort_key_row ?raw
        = [as_row t2 ''seed_top'', as_row t3 ''seed_top'', as_row t1 ''seed_top'']"
    using pop by (simp add: sort_key_row_def as_row_def Let_def)
  have "post_process cfg ?raw catalog
        = [as_row t2 ''seed_top'', as_row t3 ''seed_top'', as_row t1 ''seed_top'']"
    unfolding post_process_def dd ro srt Let_def using cfg by simp
  then show ?thesis
    by (simp only: gen_for_seeds_def raw)
qed

lemma count_list_insort_key: "count_list (insort_key f a xs) x = count_list (a # xs) x"
  by (induction xs) auto

lemma count_list_sort_key: "count_list (sort_key f xs) x = count_list xs x"
  by (induction xs) (simp_all add: count_list_insort_key)

lemma gen_for_seeds_is_ranked_prefix:
  "gen_for_seeds cfg sp seeds catalog
     = (if TARGET_TRACKS cfg < int (length (filtered_rows cfg sp seeds catalog))
        then py_take (TARGET_TRACKS cfg)
               (sort_key sort_key_row (filtered_rows cfg sp seeds catalog))
        else sort_key sort_key_row (filtered_rows cfg sp seeds catalog))"
  by (simp add: gen_for_seeds_def post_process_def filtered_rows_def Let_def)

lemma gen_for_seeds_take:
  "0 \<le> TARGET_TRACKS cfg \<Longrightarrow>
   gen_for_seeds cfg sp seeds catalog
     = take (nat (TARGET_TRACKS cfg)) (sort_key sort_key_row (filtered_rows cfg sp seeds catalog))"
  unfolding gen_for_seeds_is_ranked_prefix by (simp add: py_take_def)

lemma tiered_collect:
  "rows (collect tiered_params tiered_sp [''s1''])
     = [as_row (demo_track ''a'' 10) ''seed_top'', as_row (demo_track ''b'' 50) ''seed_top'',
        as_row (demo_track ''c'' 50) ''seed_top'',
        as_row ((demo_track ''e'' 0)\<lparr>tr_popularity := None\<rparr>) ''by_related_top'',
        as_row (demo_track ''d'' 90) ''by_related_top'',
        as_row (demo_track ''f'' 0) ''by_related_top'']"
  by (simp add: collect_def seed_step_def fetch_rows_def tracks_from_artist_def
      get_top_tracks_def get_related_def rel_ids_of_def py_take_def init_state_def Let_def
      tiered_sp_def tiered_params_def)

lemma tiered_filtered:
  "filtered_rows tiered_params tiered_sp [''s1''] None
     = [as_row (demo_track ''a'' 10) ''seed_top'', as_row (demo_track ''b'' 50) ''seed_top'',
        as_row (demo_track ''c'' 50) ''seed_top'',
        as_row ((demo_track ''e'' 0)\<lparr>tr_popularity := None\<rparr>) ''by_related_top'',
        as_row (demo_track ''d'' 90) ''by_related_top'',
        as_row (demo_track ''f'' 0) ''by_related_top'']"
  unfolding filtered_rows_def tiered_collect
  by (simp add: dedup_rows_def remove_owned_def as_row_def demo_track_def str_or_empty_def Let_def)

lemma tiered_ranked:
  "sort_key sort_key_row
       [as_row (demo_track ''a'' 10) ''seed_top'', as_row (demo_track ''b'' 50) ''seed_top'',
        as_row (demo_track ''c'' 50) ''seed_top'',
        as_row ((demo_track ''e'' 0)\<lparr>tr_popularity := None\<rparr>) ''by_related_top'',
        as_row (demo_track ''d'' 90) ''by_related_top'',
        as_row (demo_track ''f'' 0) ''by_related_top'']
     = [as_row (demo_track ''b'' 50) ''seed_top'', as_row (demo_track ''c'' 50) ''seed_top'',
        as_row (demo_track ''a'' 10) ''seed_top'',
        as_row (demo_track ''d'' 90) ''by_related_top'',
        as_row ((demo_track ''e'' 0)\<lparr>tr_popularity := None\<rparr>) ''by_related_top'',
        as_row (demo_track ''f'' 0) ''by_related_top'']"
  by (simp add: sort_key_row_def as_row_def demo_track_def Let_def)

subsection \<open>Ranking\<close>

text \<open>
  Claim C1. The candidate list that \<open>gen_for_seeds\<close> returns is the stable sort, by the
  key \<open>(source priority, - popularity)\<close>, of the deduplicated and filtered candidates
  \<open>filtered_rows\<close>, cut to the target: it is that sorted list, or its slice up to
  \<open>TARGET_TRACKS\<close> when it is longer, which for a target that is not negative is its
  first \<open>TARGET_TRACKS\<close> rows. The key of a \<open>seed_top\<close> row starts with 0, the key of a
  \<open>by_related_top\<close> row with 1, and a missing popularity counts as 0. The sorted list
  has the rows of the filtered list, each as often, is ordered by the key, and for every
  key holds the rows of that key in their collection order. For the single seed whose
  provider answer holds three tracks of popularities 10, 50 and 30 (with distinct
  non-empty ids that are not owned), \<open>TOP_PER_ARTIST = 3\<close>, \<open>RELATED_PER_SEED = 0\<close> and
  a target of at least 3, the result is the rows of popularity 50, 30, 10 in this order,
  all tagged \<open>seed_top\<close>.
\<close>

theorem C1_ranking_stable_by_source_then_popularity:
  "(source r = ''seed_top'' \<longrightarrow> fst (sort_key_row r) = 0)
   \<and> (source r = ''by_related_top'' \<longrightarrow> fst (sort_key_row r) = 1)
   \<and> (popularity r = None \<longrightarrow> snd (sort_key_row r) = 0)
   \<and> (popularity r = Some p \<longrightarrow> snd (sort_key_row r) = - p)
   \<and> gen_for_seeds cfg sp seeds catalog
       = (if TARGET_TRACKS cfg < int (length (filtered_rows cfg sp seeds catalog))
          then py_take (TARGET_TRACKS cfg)
                 (sort_key sort_key_row (filtered_rows cfg sp seeds catalog))
          else sort_key sort_key_row (filtered_rows cfg sp seeds catalog))
   \<and> (0 \<le> TARGET_TRACKS cfg
        \<longrightarrow> gen_for_seeds cfg sp seeds catalog
            = take (nat (TARGET_TRACKS cfg))
                (sort_key sort_key_row (filtered_rows cfg sp seeds catalog)))
   \<and> filtered_rows cfg sp seeds catalog
       = remove_owned (dedup_rows (rows (collect cfg sp seeds))) catalog
   \<and> sorted (map sort_key_row (sort_key sort_key_row (filtered_rows cfg sp seeds catalog)))
   \<and> (\<forall>key. filter (\<lambda>x. sort_key_row x = key)
                (sort_key sort_key_row (filtered_rows cfg sp seeds catalog))
             = filter (\<lambda>x. sort_key_row x = key) (filtered_rows cfg sp seeds catalog))
   \<and> (\<forall>x. count_list (sort_key sort_key_row (filtered_rows cfg sp seeds catalog)) x
             = count_list (filtered_rows cfg sp seeds catalog) x)
   \<and> sorted (map sort_key_row (gen_for_seeds cfg sp seeds catalog))
   \<and> (\<exists>m. filter (\<lambda>x. sort_key_row x = k) (gen_for_seeds cfg sp seeds catalog)
          = take m (filter (\<lambda>x. sort_key_row x = k)
              (remove_owned (dedup_rows (rows (collect cfg sp seeds))) catalog)))
   \<and> (TOP_PER_ARTIST cfg = 3 \<and> RELATED_PER_SEED cfg = 0 \<and> 3 \<le> TARGET_TRACKS cfg
        \<and> artist_top_tracks sp 0 a1 = Returns (Some [t1, t2, t3])
        \<and> tr_popularity t1 = Some 10 \<and> tr_popularity t2 = Some 50 \<and> tr_popularity t3 = Some 30
        \<and> tr_id t1 = Some i1 \<and> tr_id t2 = Some i2 \<and> tr_id t3 = Some i3
        \<and> i1 \<noteq> [] \<and> i2 \<noteq> [] \<and> i3 \<noteq> [] \<and> distinct [i1, i2, i3]
        \<and> i1 \<notin> owned_ids catalog \<and> i2 \<notin> owned_ids catalog \<and> i3 \<notin> owned_ids catalog
      \<longrightarrow> gen_for_seeds cfg sp [a1] catalog
            = [as_row t2 ''seed_top'', as_row t3 ''seed_top'', as_row t1 ''seed_top'']
          \<and> map source (gen_for_seeds cfg sp [a1] catalog)
            = [''seed_top'', ''seed_top'', ''seed_top'']
          \<and> map popularity (gen_for_seeds cfg sp [a1] catalog) = [Some 50, Some 30, Some 10])"
proof -
  let ?pre = "filtered_rows cfg sp seeds catalog"
  have keys: "(source r = ''seed_top'' \<longrightarrow> fst (sort_key_row r) = 0)
      \<and> (source r = ''by_related_top'' \<longrightarrow> fst (sort_key_row r) = 1)
      \<and> (popularity r = None \<longrightarrow> snd (sort_key_row r) = 0)
      \<and> (popularity r = Some p \<longrightarrow> snd (sort_key_row r) = - p)"
    by (simp add: sort_key_row_def Let_def)
  have exact: "gen_for_seeds cfg sp seeds catalog
       = (if TARGET_TRACKS cfg < int (length ?pre)
          then py_take (TARGET_TRACKS cfg) (sort_key sort_key_row ?pre)
          else sort_key sort_key_row ?pre)"
    by (rule gen_for_seeds_is_ranked_prefix)
  have tk: "0 \<le> TARGET_TRACKS cfg
        \<longrightarrow> gen_for_seeds cfg sp seeds catalog
            = take (nat (TARGET_TRACKS cfg)) (sort_key sort_key_row ?pre)"
    using gen_for_seeds_take by blast
  have pre: "?pre = remove_owned (dedup_rows (rows (collect cfg sp seeds))) catalog"
    by (rule filtered_rows_def)
  have s0: "sorted (map sort_key_row (sort_key sort_key_row ?pre))" by simp
  have st0: "\<forall>key. filter (\<lambda>x. sort_key_row x = key) (sort_key sort_key_row ?pre)
             = filter (\<lambda>x. sort_key_row x = key) ?pre"
    by (simp add: sort_key_stable)
  have cnt: "\<forall>x. count_list (sort_key sort_key_row ?pre) x = count_list ?pre x"
    by (simp add: count_list_sort_key)
  have srt: "sorted (map sort_key_row (gen_for_seeds cfg sp seeds catalog))"
    unfolding gen_for_seeds_def by (rule post_process_sorted)
  have stab: "\<exists>m. filter (\<lambda>x. sort_key_row x = k) (gen_for_seeds cfg sp seeds catalog)
          = take m (filter (\<lambda>x. sort_key_row x = k)
              (remove_owned (dedup_rows (rows (collect cfg sp seeds))) catalog))"
    unfolding gen_for_seeds_def by (rule post_process_stable)
  have scen: "gen_for_seeds cfg sp [a1] catalog
            = [as_row t2 ''seed_top'', as_row t3 ''seed_top'', as_row t1 ''seed_top'']
          \<and> map source (gen_for_seeds cfg sp [a1] catalog)
            = [''seed_top'', ''seed_top'', ''seed_top'']
          \<and> map popularity (gen_for_seeds cfg sp [a1] catalog) = [Some 50, Some 30, Some 10]"
    if h: "TOP_PER_ARTIST cfg = 3 \<and> RELATED_PER_SEED cfg = 0 \<and> 3 \<le> TARGET_TRACKS cfg
        \<and> artist_top_tracks sp 0 a1 = Returns (Some [t1, t2, t3])
        \<and> tr_popularity t1 = Some 10 \<and> tr_popularity t2 = Some 50 \<and> tr_popularity t3 = Some 30
        \<and> tr_id t1 = Some i1 \<and> tr_id t2 = Some i2 \<and> tr_id t3 = Some i3
        \<and> i1 \<noteq> [] \<and> i2 \<noteq> [] \<and> i3 \<noteq> [] \<and> distinct [i1, i2, i3]
        \<and> i1 \<notin> owned_ids catalog \<and> i2 \<notin> owned_ids catalog \<and> i3 \<notin> owned_ids catalog"
  proof -
    have g: "gen_for_seeds cfg sp [a1] catalog
            = [as_row t2 ''seed_top'', as_row t3 ''seed_top'', as_row t1 ''seed_top'']"
      by (rule single_seed_three_tracks[of cfg sp a1 t1 t2 t3 i1 i2 i3 catalog]) (use h in simp_all)
    show ?thesis unfolding g using h by (simp add: as_row_def Let_def)
  qed
  show ?thesis
    apply (intro conjI)
                apply (use keys in blast)
               apply (use keys in blast)
              apply (use keys in blast)
             apply (use keys in blast)
            apply (rule exact)
           apply (rule tk)
          apply (rule pre)
         apply (rule s0)
        apply (rule st0)
       apply (rule cnt)
      apply (rule srt)
     apply (rule stab)
    apply (use scen in blast)
    done
qed

theorem C1_witness:
  "filtered_rows tiered_params tiered_sp [''s1''] None
     = [as_row (demo_track ''a'' 10) ''seed_top'', as_row (demo_track ''b'' 50) ''seed_top'',
        as_row (demo_track ''c'' 50) ''seed_top'',
        as_row ((demo_track ''e'' 0)\<lparr>tr_popularity := None\<rparr>) ''by_related_top'',
        as_row (demo_track ''d'' 90) ''by_related_top'',
        as_row (demo_track ''f'' 0) ''by_related_top'']
   \<and> gen_for_seeds tiered_params tiered_sp [''s1''] None
     = [as_row (demo_track ''b'' 50) ''seed_top'', as_row (demo_track ''c'' 50) ''seed_top'',
        as_row (demo_track ''a'' 10) ''seed_top'',
        as_row (demo_track ''d'' 90) ''by_related_top'',
        as_row ((demo_track ''e'' 0)\<lparr>tr_popularity := None\<rparr>) ''by_related_top'']
   \<and> gen_for_seeds scenario_params scenario_sp [''a1''] None
     = [as_row (demo_track ''t50'' 50) ''seed_top'', as_row (demo_track ''t30'' 30) ''seed_top'',
        as_row (demo_track ''t10'' 10) ''seed_top'']
   \<and> fst (sort_key_row (as_row (demo_track ''b'' 50) ''seed_top'')) = 0
   \<and> fst (sort_key_row (as_row (demo_track ''d'' 90) ''by_related_top'')) = 1
   \<and> snd (sort_key_row (as_row ((demo_track ''e'' 0)\<lparr>tr_popularity := None\<rparr>) ''by_related_top'')) = 0"
proof -
  note tiered = C1_ranking_stable_by_source_then_popularity
      [where r = "as_row (demo_track ''b'' 50) ''seed_top''"
         and p = "50"
         and cfg = "tiered_params"
         and sp = "tiered_sp"
         and seeds = "[''s1'']"
         and catalog = "None"
         and k = "(0, 0)"
         and ?a1.0 = "''a1''"
         and ?t1.0 = "demo_track ''t10'' 10"
         and ?t2.0 = "demo_track ''t50'' 50"
         and ?t3.0 = "demo_track ''t30'' 30"
         and ?i1.0 = "''t10''"
         and ?i2.0 = "''t50''"
         and ?i3.0 = "''t30''"]
  note tiered_d = C1_ranking_stable_by_source_then_popularity
      [where r = "as_row (demo_track ''d'' 90) ''by_related_top''"
         and p = "90"
         and cfg = "tiered_params"
         and sp = "tiered_sp"
         and seeds = "[''s1'']"
         and catalog = "None"
         and k = "(0, 0)"
         and ?a1.0 = "''a1''"
         and ?t1.0 = "demo_track ''t10'' 10"
         and ?t2.0 = "demo_track ''t50'' 50"
         and ?t3.0 = "demo_track ''t30'' 30"
         and ?i1.0 = "''t10''"
         and ?i2.0 = "''t50''"
         and ?i3.0 = "''t30''"]
  note tiered_e = C1_ranking_stable_by_source_then_popularity
      [where r = "as_row ((demo_track ''e'' 0)\<lparr>tr_popularity := None\<rparr>) ''by_related_top''"
         and p = "0"
         and cfg = "tiered_params"
         and sp = "tiered_sp"
         and seeds = "[''s1'']"
         and catalog = "None"
         and k = "(0, 0)"
         and ?a1.0 = "''a1''"
         and ?t1.0 = "demo_track ''t10'' 10"
         and ?t2.0 = "demo_track ''t50'' 50"
         and ?t3.0 = "demo_track ''t30'' 30"
         and ?i1.0 = "''t10''"
         and ?i2.0 = "''t50''"
         and ?i3.0 = "''t30''"]
  note scenario = C1_ranking_stable_by_source_then_popularity
      [where r = "as_row (demo_track ''b'' 50) ''seed_top''"
         and p = "50"
         and cfg = "scenario_params"
         and sp = "scenario_sp"
         and seeds = "[''a1'']"
         and catalog = "None"
         and k = "(0, 0)"
         and ?a1.0 = "''a1''"
         and ?t1.0 = "demo_track ''t10'' 10"
         and ?t2.0 = "demo_track ''t50'' 50"
         and ?t3.0 = "demo_track ''t30'' 30"
         and ?i1.0 = "''t10''"
         and ?i2.0 = "''t50''"
         and ?i3.0 = "''t30''"]
  have pos: "0 \<le> TARGET_TRACKS tiered_params" and n: "nat (TARGET_TRACKS tiered_params) = 5"
    by (simp_all add: tiered_params_def)
  have "gen_for_seeds tiered_params tiered_sp [''s1''] None
      = take (nat (TARGET_TRACKS tiered_params))
          (sort_key sort_key_row (filtered_rows tiered_params tiered_sp [''s1''] None))"
    using tiered pos by blast
  then have run: "gen_for_seeds tiered_params tiered_sp [''s1''] None
     = [as_row (demo_track ''b'' 50) ''seed_top'', as_row (demo_track ''c'' 50) ''seed_top'',
        as_row (demo_track ''a'' 10) ''seed_top'',
        as_row (demo_track ''d'' 90) ''by_related_top'',
        as_row ((demo_track ''e'' 0)\<lparr>tr_popularity := None\<rparr>) ''by_related_top'']"
    unfolding tiered_filtered tiered_ranked n by simp
  have hyp: "TOP_PER_ARTIST scenario_params = 3 \<and> RELATED_PER_SEED scenario_params = 0
        \<and> 3 \<le> TARGET_TRACKS scenario_params
        \<and> artist_top_tracks scenario_sp 0 ''a1''
            = Returns (Some [demo_track ''t10'' 10, demo_track ''t50'' 50, demo_track ''t30'' 30])
        \<and> tr_popularity (demo_track ''t10'' 10) = Some 10
        \<and> tr_popularity (demo_track ''t50'' 50) = Some 50
        \<and> tr_popularity (demo_track ''t30'' 30) = Some 30
        \<and> tr_id (demo_track ''t10'' 10) = Some ''t10''
        \<and> tr_id (demo_track ''t50'' 50) = Some ''t50''
        \<and> tr_id (demo_track ''t30'' 30) = Some ''t30''
        \<and> ''t10'' \<noteq> [] \<and> ''t50'' \<noteq> [] \<and> ''t30'' \<noteq> [] \<and> distinct [''t10'', ''t50'', ''t30'']
        \<and> ''t10'' \<notin> owned_ids None \<and> ''t50'' \<notin> owned_ids None \<and> ''t30'' \<notin> owned_ids None"
    by (simp add: scenario_params_def scenario_sp_def demo_track_def owned_ids_def)
  have scen: "gen_for_seeds scenario_params scenario_sp [''a1''] None
     = [as_row (demo_track ''t50'' 50) ''seed_top'', as_row (demo_track ''t30'' 30) ''seed_top'',
        as_row (demo_track ''t10'' 10) ''seed_top'']"
    using scenario hyp by blast
  have sb: "source (as_row (demo_track ''b'' 50) ''seed_top'') = ''seed_top''"
    and sd: "source (as_row (demo_track ''d'' 90) ''by_related_top'') = ''by_related_top''"
    and pe: "popularity (as_row ((demo_track ''e'' 0)\<lparr>tr_popularity := None\<rparr>) ''by_related_top'')
        = None"
    by (simp_all add: as_row_def Let_def)
  have k1: "fst (sort_key_row (as_row (demo_track ''b'' 50) ''seed_top'')) = 0"
    using tiered sb by blast
  have k2: "fst (sort_key_row (as_row (demo_track ''d'' 90) ''by_related_top'')) = 1"
    using tiered_d sd by blast
  have k3: "snd (sort_key_row
      (as_row ((demo_track ''e'' 0)\<lparr>tr_popularity := None\<rparr>) ''by_related_top'')) = 0"
    using tiered_e pe by blast
  from tiered_filtered run scen k1 k2 k3 show ?thesis by blast
qed

lemma mixed_raw:
  "rows (collect mixed_params mixed_sp [''a1'']) = map (\<lambda>t. as_row t ''seed_top'') mixed_tracks"
  by (simp add: collect_def seed_step_def fetch_rows_def tracks_from_artist_def
        get_top_tracks_def py_take_def init_state_def Let_def mixed_sp_def mixed_params_def
        mixed_tracks_def)

lemma mixed_run:
  "gen_for_seeds mixed_params mixed_sp [''a1''] mixed_catalog
     = [as_row (demo_track ''t3'' 30) ''seed_top'']"
  unfolding gen_for_seeds_def mixed_raw
  by (simp add: post_process_def dedup_rows_def remove_owned_def sort_key_row_def as_row_def
      demo_track_def str_or_empty_def mixed_params_def mixed_catalog_def mixed_tracks_def
      py_take_def Let_def)

lemma gen_for_seeds_nonempty_id:
  assumes "r \<in> set (gen_for_seeds cfg sp seeds catalog)"
  shows "\<exists>t. track_id r = Some t \<and> t \<noteq> []"
proof -
  from assms have "r \<in> set (remove_owned (dedup_rows (rows (collect cfg sp seeds))) catalog)"
    unfolding gen_for_seeds_def by (rule post_process_mem)
  then have "tid r \<noteq> []"
    using remove_owned_mem dedup_rows_mem by blast
  then show ?thesis by (cases "track_id r") (simp_all add: str_or_empty_def)
qed

subsection \<open>Uniqueness and size\<close>

text \<open>
  Claim C2. For every seed list, provider and owned catalog, the list returned by
  \<open>gen_for_seeds\<close> has pairwise distinct \<open>track_id\<close> values, and its length is at most
  \<open>TARGET_TRACKS\<close>. The length bound is stated for a target that is not negative, as
  the constant of the source (150) is; no list is shorter than a negative number.
\<close>

theorem C2_unique_track_ids_and_size_bound:
  "distinct (map track_id (gen_for_seeds cfg sp seeds catalog))
   \<and> (0 \<le> TARGET_TRACKS cfg
        \<longrightarrow> int (length (gen_for_seeds cfg sp seeds catalog)) \<le> TARGET_TRACKS cfg)"
  unfolding gen_for_seeds_def
  using post_process_distinct[of cfg "rows (collect cfg sp seeds)" catalog]
    post_process_length[of cfg "rows (collect cfg sp seeds)" catalog]
  by blast

theorem C2_witness:
  "0 \<le> TARGET_TRACKS mixed_params
   \<and> length mixed_tracks = 6
   \<and> distinct (map track_id (gen_for_seeds mixed_params mixed_sp [''a1''] mixed_catalog))
   \<and> int (length (gen_for_seeds mixed_params mixed_sp [''a1''] mixed_catalog)) \<le> 1"
  using C2_unique_track_ids_and_size_bound[of mixed_params mixed_sp "[''a1'']" mixed_catalog]
  by (simp add: mixed_params_def mixed_tracks_def)

subsection \<open>Ownership exclusion\<close>

text \<open>
  Claim C3. No row of the list returned by \<open>gen_for_seeds\<close> has a \<open>track_id\<close> that
  belongs to the owned-catalog set of track ids: \<open>remove_owned\<close> drops every row whose id
  is in that set, and the later steps only reorder and shorten its result.
\<close>

theorem C3_no_owned_track_in_output:
  "(\<forall>r \<in> set (gen_for_seeds cfg sp seeds catalog).
      str_or_empty (track_id r) \<notin> owned_ids catalog
      \<and> (\<forall>t. track_id r = Some t \<longrightarrow> t \<notin> owned_ids catalog))
   \<and> (\<forall>r \<in> set (remove_owned rs catalog). str_or_empty (track_id r) \<notin> owned_ids catalog)"
proof -
  have a: "str_or_empty (track_id r) \<notin> owned_ids catalog
      \<and> (\<forall>t. track_id r = Some t \<longrightarrow> t \<notin> owned_ids catalog)"
    if "r \<in> set (gen_for_seeds cfg sp seeds catalog)" for r
  proof -
    from that have "r \<in> set (remove_owned (dedup_rows (rows (collect cfg sp seeds))) catalog)"
      unfolding gen_for_seeds_def by (rule post_process_mem)
    then have "tid r \<notin> owned_ids catalog" using remove_owned_mem by blast
    then show ?thesis by (auto simp: str_or_empty_def)
  qed
  have b: "str_or_empty (track_id r) \<notin> owned_ids catalog"
    if "r \<in> set (remove_owned rs catalog)" for r
    using that remove_owned_mem by blast
  from a b show ?thesis by blast
qed

theorem C3_witness:
  "gen_for_seeds mixed_params mixed_sp [''a1''] mixed_catalog
     = [as_row (demo_track ''t3'' 30) ''seed_top'']
   \<and> ''t2'' \<in> owned_ids mixed_catalog
   \<and> ''t3'' \<notin> owned_ids mixed_catalog
   \<and> remove_owned [as_row (demo_track ''t2'' 50) ''seed_top'', as_row (demo_track ''t3'' 30) ''seed_top'']
        mixed_catalog = [as_row (demo_track ''t3'' 30) ''seed_top'']"
proof -
  have run: "gen_for_seeds mixed_params mixed_sp [''a1''] mixed_catalog
     = [as_row (demo_track ''t3'' 30) ''seed_top'']"
    by (rule mixed_run)
  have rest: "''t2'' \<in> owned_ids mixed_catalog
   \<and> ''t3'' \<notin> owned_ids mixed_catalog
   \<and> remove_owned [as_row (demo_track ''t2'' 50) ''seed_top'', as_row (demo_track ''t3'' 30) ''seed_top'']
        mixed_catalog = [as_row (demo_track ''t3'' 30) ''seed_top'']"
    by (simp add: owned_ids_def mixed_catalog_def remove_owned_def as_row_def
      demo_track_def str_or_empty_def)
  show ?thesis
    using C3_no_owned_track_in_output[of mixed_params mixed_sp "[''a1'']" mixed_catalog
      "[as_row (demo_track ''t2'' 50) ''seed_top'', as_row (demo_track ''t3'' 30) ''seed_top'']"]
      run rest
    by blast
qed

subsection \<open>Rows without a track id\<close>

text \<open>
  Claim C10. Every row of the list returned by \<open>gen_for_seeds\<close> has a non-empty
  \<open>track_id\<close>. \<open>dedup_rows\<close> keeps no row whose \<open>track_id\<close> is missing or empty, whatever
  the collected rows are, and the owned-catalog filter, the ranking and the truncation
  work on its result only.
\<close>

theorem C10_output_rows_have_nonempty_track_id:
  "(\<forall>r \<in> set (dedup_rows raw). \<exists>t. track_id r = Some t \<and> t \<noteq> [])
   \<and> (\<forall>r \<in> set raw. track_id r = None \<or> track_id r = Some [] \<longrightarrow> r \<notin> set (dedup_rows raw))
   \<and> (\<forall>r \<in> set (gen_for_seeds cfg sp seeds catalog). \<exists>t. track_id r = Some t \<and> t \<noteq> [])
   \<and> set (gen_for_seeds cfg sp seeds catalog)
        \<subseteq> set (remove_owned (dedup_rows (rows (collect cfg sp seeds))) catalog)"
proof -
  have a: "\<exists>t. track_id r = Some t \<and> t \<noteq> []" if "r \<in> set (dedup_rows raw)" for r
  proof -
    from that have "tid r \<noteq> []" using dedup_rows_mem by blast
    then show ?thesis by (cases "track_id r") (simp_all add: str_or_empty_def)
  qed
  have b: "r \<notin> set (dedup_rows raw)" if "track_id r = None \<or> track_id r = Some []" for r
    using a[of r] that by auto
  have c: "\<exists>t. track_id r = Some t \<and> t \<noteq> []"
    if "r \<in> set (gen_for_seeds cfg sp seeds catalog)" for r
    using that by (rule gen_for_seeds_nonempty_id)
  have d: "set (gen_for_seeds cfg sp seeds catalog)
        \<subseteq> set (remove_owned (dedup_rows (rows (collect cfg sp seeds))) catalog)"
    unfolding gen_for_seeds_def using post_process_mem by blast
  from a b c d show ?thesis by blast
qed

theorem C10_witness:
  "dedup_rows (map (\<lambda>t. as_row t ''seed_top'') mixed_tracks)
     = [as_row (demo_track ''t1'' 10) ''seed_top'', as_row (demo_track ''t2'' 50) ''seed_top'',
        as_row (demo_track ''t3'' 30) ''seed_top'']
   \<and> track_id (as_row ((demo_track ''x'' 99)\<lparr>tr_id := None\<rparr>) ''seed_top'') = None
   \<and> as_row ((demo_track ''x'' 99)\<lparr>tr_id := None\<rparr>) ''seed_top''
        \<in> set (map (\<lambda>t. as_row t ''seed_top'') mixed_tracks)
   \<and> gen_for_seeds mixed_params mixed_sp [''a1''] mixed_catalog
     = [as_row (demo_track ''t3'' 30) ''seed_top'']
   \<and> track_id (as_row (demo_track ''t3'' 30) ''seed_top'') = Some ''t3''"
  using C10_output_rows_have_nonempty_track_id
    [of "map (\<lambda>t. as_row t ''seed_top'') mixed_tracks" mixed_params mixed_sp "[''a1'']"
        mixed_catalog]
  by (simp add: mixed_run dedup_rows_def as_row_def demo_track_def str_or_empty_def
      mixed_tracks_def Let_def)

subsection \<open>Auxiliary facts about the collecting loop\<close>

lemma get_top_tracks_absorb: "get_top_tracks (absorb_failures sp) k a = get_top_tracks sp k a"
  by (simp add: get_top_tracks_def absorb_failures_def split: response.splits option.splits)

lemma get_related_absorb: "get_related (absorb_failures sp) k a = get_related sp k a"
  by (simp add: get_related_def absorb_failures_def split: response.splits option.splits)

lemma fetch_rows_absorb: "fetch_rows cfg (absorb_failures sp) a src s = fetch_rows cfg sp a src s"
  by (simp add: fetch_rows_def tracks_from_artist_def get_top_tracks_absorb)

lemma related_loop_absorb:
  "related_loop cfg (absorb_failures sp) ids s = related_loop cfg sp ids s"
  by (induction ids arbitrary: s) (simp_all add: fetch_rows_absorb)

lemma seed_step_absorb: "seed_step cfg (absorb_failures sp) seed s = seed_step cfg sp seed s"
  by (simp add: seed_step_def fetch_rows_absorb related_loop_absorb get_related_absorb Let_def)

lemma seed_loop_absorb: "seed_loop cfg (absorb_failures sp) seeds s = seed_loop cfg sp seeds s"
  by (induction seeds arbitrary: s) (simp_all add: seed_step_absorb Let_def)

lemma fetch_rows_failure:
  "artist_top_tracks sp (length (calls s)) a = Raises e
   \<Longrightarrow> fetch_rows cfg sp a src s = s\<lparr>calls := calls s @ [TopTracks a]\<rparr>"
  by (simp add: fetch_rows_def tracks_from_artist_def get_top_tracks_def)

lemma remdups_snoc: "remdups (xs @ [x]) = filter (\<lambda>y. y \<noteq> x) (remdups xs) @ [x]"
  by (induction xs) auto

lemma first_new_Cons_in: "rid \<in> U \<Longrightarrow> first_new U (rid # ids) = first_new U ids"
  by (auto simp: remdups_snoc rev_filter[symmetric] intro: filter_cong)

lemma first_new_Cons_out:
  "rid \<notin> U \<Longrightarrow> first_new U (rid # ids) = rid # first_new (insert rid U) ids"
  by (auto simp: remdups_snoc rev_filter[symmetric] intro: filter_cong)

lemma fetch_rows_calls: "calls (fetch_rows cfg sp a src s) = calls s @ [TopTracks a]"
  by (simp add: fetch_rows_def)

lemma fetch_rows_used: "used_artists (fetch_rows cfg sp a src s) = used_artists s"
  by (simp add: fetch_rows_def)

lemma related_loop_calls:
  "calls (related_loop cfg sp ids s) = calls s @ map TopTracks (first_new (used_artists s) ids)"
proof (induction ids arbitrary: s)
  case Nil
  then show ?case by simp
next
  case (Cons rid ids)
  show ?case
  proof (cases "rid \<in> used_artists s")
    case True
    then show ?thesis using Cons[of s] by (simp only: related_loop.simps first_new_Cons_in if_True)
  next
    case False
    then show ?thesis
      using Cons[of "fetch_rows cfg sp rid ''by_related_top'' (s\<lparr>used_artists := insert rid (used_artists s)\<rparr>)"]
      by (simp add: first_new_Cons_out fetch_rows_calls fetch_rows_used del: rev.simps)
  qed
qed

lemma related_loop_used:
  "used_artists (related_loop cfg sp ids s) = used_artists s \<union> set ids"
  by (induction ids arbitrary: s) (auto simp: fetch_rows_used)

lemma related_loop_rows:
  "\<exists>extra. rows (related_loop cfg sp ids s) = rows s @ extra
     \<and> (\<forall>r\<in>set extra. source r = ''by_related_top'')"
proof (induction ids arbitrary: s)
  case Nil
  then show ?case by simp
next
  case (Cons rid ids)
  show ?case
  proof (cases "rid \<in> used_artists s")
    case True
    then show ?thesis using Cons[of s] by simp
  next
    case False
    let ?s' = "fetch_rows cfg sp rid ''by_related_top'' (s\<lparr>used_artists := insert rid (used_artists s)\<rparr>)"
    obtain extra where e: "rows (related_loop cfg sp ids ?s') = rows ?s' @ extra"
      "\<forall>r\<in>set extra. source r = ''by_related_top''"
      using Cons[of ?s'] by blast
    obtain new where n: "rows ?s' = rows s @ new" "\<forall>r\<in>set new. source r = ''by_related_top''"
      by (auto simp: fetch_rows_def as_row_def Let_def)
    have "rows (related_loop cfg sp (rid # ids) s) = rows s @ (new @ extra)"
      using False e n by simp
    moreover have "\<forall>r\<in>set (new @ extra). source r = ''by_related_top''"
      using e n by auto
    ultimately show ?thesis by blast
  qed
qed

lemma seed_step_used_mono: "used_artists s \<subseteq> used_artists (seed_step cfg sp seed s)"
  by (auto simp: seed_step_def Let_def related_loop_used fetch_rows_used)

lemma seed_loop_used_mono: "used_artists s \<subseteq> used_artists (seed_loop cfg sp seeds s)"
proof (induction seeds arbitrary: s)
  case Nil
  then show ?case by simp
next
  case (Cons seed seeds)
  show ?case
    using seed_step_used_mono[of s cfg sp seed] Cons[of "seed_step cfg sp seed s"]
    by (auto simp: Let_def)
qed

lemma seed_step_calls:
  "\<exists>cs. calls (seed_step cfg sp seed s) = calls s @ TopTracks seed # cs"
  by (simp add: seed_step_def Let_def related_loop_calls fetch_rows_calls)

lemma seed_loop_calls_extend:
  "\<exists>cs. calls (seed_loop cfg sp seeds s) = calls s @ cs"
proof (induction seeds arbitrary: s)
  case Nil
  then show ?case by simp
next
  case (Cons seed seeds)
  obtain c1 where c1: "calls (seed_step cfg sp seed s) = calls s @ c1"
    using seed_step_calls[of cfg sp seed s] by blast
  obtain c2 where c2: "calls (seed_loop cfg sp seeds (seed_step cfg sp seed s))
      = calls (seed_step cfg sp seed s) @ c2"
    using Cons[of "seed_step cfg sp seed s"] by blast
  show ?case
    using c1 c2 by (auto simp: Let_def)
qed

lemma post_process_zero: "TARGET_TRACKS cfg = 0 \<Longrightarrow> post_process cfg raw c = []"
  by (simp add: post_process_def Let_def py_take_def)

lemma shared_after_s1:
  "collect shared_params shared_sp [''s1'']
     = \<lparr>rows = [as_row (demo_track ''s1-top'' 1) ''seed_top'',
                 as_row (demo_track ''r1-top'' 1) ''by_related_top''],
        used_artists = {''r1''},
        calls = [TopTracks ''s1'', Related ''s1'', TopTracks ''r1'']\<rparr>"
  by (simp add: collect_def seed_step_def fetch_rows_def tracks_from_artist_def
      get_top_tracks_def get_related_def rel_ids_of_def py_take_def init_state_def Let_def
      shared_sp_def shared_params_def)

lemma shared_step_s2:
  "seed_step shared_params shared_sp ''s2''
      \<lparr>rows = rs, used_artists = {''r1''}, calls = [TopTracks ''s1'', Related ''s1'', TopTracks ''r1'']\<rparr>
     = \<lparr>rows = rs @ [as_row (demo_track ''s2-top'' 1) ''seed_top''],
        used_artists = {''r1''},
        calls = [TopTracks ''s1'', Related ''s1'', TopTracks ''r1'', TopTracks ''s2'', Related ''s2'']\<rparr>"
  by (simp add: seed_step_def fetch_rows_def tracks_from_artist_def
      get_top_tracks_def get_related_def rel_ids_of_def py_take_def Let_def
      shared_sp_def shared_params_def)

lemma seed_loop_single: "seed_loop cfg sp [a] s = seed_step cfg sp a s"
  by (simp add: Let_def)

lemma seed_loop_pair:
  "int (length (rows (seed_step cfg sp a s))) < TARGET_TRACKS cfg * 2
   \<Longrightarrow> seed_loop cfg sp [a, b] s = seed_step cfg sp b (seed_step cfg sp a s)"
  by (simp add: Let_def)

lemma shared_run_calls:
  "gen_calls shared_params shared_sp [''s1'', ''s2'']
     = [TopTracks ''s1'', Related ''s1'', TopTracks ''r1'', TopTracks ''s2'', Related ''s2'']"
proof -
  have s1: "seed_step shared_params shared_sp ''s1'' init_state
      = \<lparr>rows = [as_row (demo_track ''s1-top'' 1) ''seed_top'',
                 as_row (demo_track ''r1-top'' 1) ''by_related_top''],
        used_artists = {''r1''},
        calls = [TopTracks ''s1'', Related ''s1'', TopTracks ''r1'']\<rparr>"
    using shared_after_s1 by (simp only: collect_def seed_loop_single)
  have small: "int (length (rows (seed_step shared_params shared_sp ''s1'' init_state)))
      < TARGET_TRACKS shared_params * 2"
    unfolding s1 by (simp add: shared_params_def)
  have "collect shared_params shared_sp [''s1'', ''s2'']
      = seed_step shared_params shared_sp ''s2''
          (seed_step shared_params shared_sp ''s1'' init_state)"
    unfolding collect_def by (rule seed_loop_pair[OF small])
  then show ?thesis
    unfolding gen_calls_def s1 by (simp only: shared_step_s2 collect_state.simps)
qed

lemma failing_raw:
  "collect failing_params mixed_sp [''a0'', ''a1'']
     = \<lparr>rows = map (\<lambda>t. as_row t ''seed_top'') mixed_tracks, used_artists = {},
        calls = [TopTracks ''a0'', Related ''a0'', TopTracks ''a1'', Related ''a1'']\<rparr>"
  by (simp add: collect_def seed_step_def fetch_rows_def tracks_from_artist_def
      get_top_tracks_def get_related_def rel_ids_of_def py_take_def init_state_def Let_def
      mixed_sp_def failing_params_def mixed_tracks_def)

lemma failing_run:
  "gen_for_seeds failing_params mixed_sp [''a0'', ''a1''] mixed_catalog
     = [as_row (demo_track ''t3'' 30) ''seed_top'', as_row (demo_track ''t1'' 10) ''seed_top'']"
  unfolding gen_for_seeds_def failing_raw
  by (simp add: post_process_def dedup_rows_def remove_owned_def sort_key_row_def as_row_def
      demo_track_def str_or_empty_def failing_params_def mixed_catalog_def mixed_tracks_def
      py_take_def Let_def)

lemma zero_calls:
  "gen_calls zero_params mixed_sp [''a1'', ''a2''] = [TopTracks ''a1'', Related ''a1'']"
  by (simp add: gen_calls_def collect_def seed_step_def fetch_rows_def tracks_from_artist_def
      get_top_tracks_def get_related_def rel_ids_of_def py_take_def init_state_def Let_def
      mixed_sp_def zero_params_def mixed_tracks_def)

lemma fetch_rows_rows:
  "rows (fetch_rows cfg sp a src s)
     = rows s @ map (\<lambda>t. as_row t src)
                  (tracks_from_artist sp (length (calls s)) a (TOP_PER_ARTIST cfg))"
  by (simp add: fetch_rows_def)

lemma related_loop_rows_exact:
  "rows (related_loop cfg sp ids s)
     = rows s @ concat (map (\<lambda>(k, rid). map (\<lambda>t. as_row t ''by_related_top'')
                                 (tracks_from_artist sp k rid (TOP_PER_ARTIST cfg)))
                 (enumerate (length (calls s)) (first_new (used_artists s) ids)))"
proof (induction ids arbitrary: s)
  case Nil
  then show ?case by simp
next
  case (Cons rid ids)
  show ?case
  proof (cases "rid \<in> used_artists s")
    case True
    then show ?thesis
      using Cons[of s] by (simp only: related_loop.simps first_new_Cons_in if_True)
  next
    case False
    let ?s' = "fetch_rows cfg sp rid ''by_related_top''
                 (s\<lparr>used_artists := insert rid (used_artists s)\<rparr>)"
    have c: "length (calls ?s') = Suc (length (calls s))" by (simp add: fetch_rows_calls)
    have u: "used_artists ?s' = insert rid (used_artists s)" by (simp add: fetch_rows_used)
    have r: "rows ?s' = rows s @ map (\<lambda>t. as_row t ''by_related_top'')
                  (tracks_from_artist sp (length (calls s)) rid (TOP_PER_ARTIST cfg))"
      by (simp add: fetch_rows_rows)
    have "rows (related_loop cfg sp (rid # ids) s) = rows (related_loop cfg sp ids ?s')"
      using False by simp
    also have "\<dots> = rows ?s' @ concat (map (\<lambda>(k, rid). map (\<lambda>t. as_row t ''by_related_top'')
                                 (tracks_from_artist sp k rid (TOP_PER_ARTIST cfg)))
                 (enumerate (Suc (length (calls s))) (first_new (insert rid (used_artists s)) ids)))"
      using Cons[of ?s'] unfolding c u .
    finally show ?thesis
      unfolding r first_new_Cons_out[OF False] by simp
  qed
qed

lemma seed_step_rows_exact:
  assumes "0 < RELATED_PER_SEED cfg"
  shows "rows (seed_step cfg sp seed s)
     = rows s
       @ map (\<lambda>t. as_row t ''seed_top'')
           (tracks_from_artist sp (length (calls s)) seed (TOP_PER_ARTIST cfg))
       @ concat (map (\<lambda>(k, rid). map (\<lambda>t. as_row t ''by_related_top'')
                                 (tracks_from_artist sp k rid (TOP_PER_ARTIST cfg)))
           (enumerate (length (calls s) + 2)
              (first_new (used_artists s)
                 (rel_ids_of cfg (get_related sp (Suc (length (calls s))) seed)))))"
proof -
  let ?ids = "rel_ids_of cfg (get_related sp (Suc (length (calls s))) seed)"
  let ?s1 = "fetch_rows cfg sp seed ''seed_top'' s"
  let ?s1' = "?s1\<lparr>calls := calls ?s1 @ [Related seed]\<rparr>"
  have step: "seed_step cfg sp seed s = related_loop cfg sp ?ids ?s1'"
    using assms by (simp add: seed_step_def Let_def fetch_rows_calls)
  have a: "rows ?s1' = rows s @ map (\<lambda>t. as_row t ''seed_top'')
           (tracks_from_artist sp (length (calls s)) seed (TOP_PER_ARTIST cfg))"
    by (simp add: fetch_rows_rows)
  have b: "length (calls ?s1') = length (calls s) + 2" by (simp add: fetch_rows_calls)
  have c: "used_artists ?s1' = used_artists s" by (simp add: fetch_rows_used)
  show ?thesis
    unfolding step related_loop_rows_exact a b c by simp
qed

lemma shared_tracks:
  "tracks_from_artist shared_sp k a (TOP_PER_ARTIST shared_params) = [demo_track (a @ ''-top'') 1]"
  by (simp add: tracks_from_artist_def get_top_tracks_def py_take_def shared_sp_def
      shared_params_def)

subsection \<open>Failure isolation\<close>

text \<open>
  Claim C7. A provider call that raises, for top tracks or for related artists, is
  caught where it is made and gives the empty list for that artist: the top-tracks fetch
  then adds no row and only records the call. The run is not aborted: it makes the same
  calls and returns the same candidate list as a run against the provider in which each
  failing call returns an empty list instead.
\<close>

theorem C7_provider_failure_is_zero_results:
  "(artist_top_tracks sp k a = Raises e
      \<longrightarrow> get_top_tracks sp k a = [] \<and> tracks_from_artist sp k a n = [])
   \<and> (artist_related_artists sp k a = Raises e \<longrightarrow> get_related sp k a = [])
   \<and> (artist_top_tracks sp (length (calls s)) a = Raises e
      \<longrightarrow> fetch_rows cfg sp a src s = s\<lparr>calls := calls s @ [TopTracks a]\<rparr>)
   \<and> collect cfg sp seeds = collect cfg (absorb_failures sp) seeds
   \<and> gen_calls cfg sp seeds = gen_calls cfg (absorb_failures sp) seeds
   \<and> gen_for_seeds cfg sp seeds catalog = gen_for_seeds cfg (absorb_failures sp) seeds catalog
   \<and> artist_top_tracks (absorb_failures sp) k a \<noteq> Raises e
   \<and> artist_related_artists (absorb_failures sp) k a \<noteq> Raises e"
proof -
  have a: "artist_top_tracks sp k a = Raises e
      \<longrightarrow> get_top_tracks sp k a = [] \<and> tracks_from_artist sp k a n = []"
    by (simp add: get_top_tracks_def tracks_from_artist_def)
  have b: "artist_related_artists sp k a = Raises e \<longrightarrow> get_related sp k a = []"
    by (simp add: get_related_def)
  have c: "artist_top_tracks sp (length (calls s)) a = Raises e
      \<longrightarrow> fetch_rows cfg sp a src s = s\<lparr>calls := calls s @ [TopTracks a]\<rparr>"
    using fetch_rows_failure by blast
  have d: "collect cfg sp seeds = collect cfg (absorb_failures sp) seeds"
    by (simp add: collect_def seed_loop_absorb)
  have e: "artist_top_tracks (absorb_failures sp) k a \<noteq> Raises e"
    "artist_related_artists (absorb_failures sp) k a \<noteq> Raises e"
    by (simp_all add: absorb_failures_def split: response.splits)
  from a b c d e show ?thesis
    by (simp add: gen_calls_def gen_for_seeds_def)
qed

theorem C7_witness:
  "artist_top_tracks mixed_sp 0 ''a0'' = Raises SpotifyException
   \<and> artist_related_artists mixed_sp 1 ''a0'' = Raises OtherException
   \<and> get_top_tracks mixed_sp 0 ''a0'' = []
   \<and> get_related mixed_sp 1 ''a0'' = []
   \<and> gen_calls failing_params (absorb_failures mixed_sp) [''a0'', ''a1'']
       = [TopTracks ''a0'', Related ''a0'', TopTracks ''a1'', Related ''a1'']
   \<and> gen_for_seeds failing_params (absorb_failures mixed_sp) [''a0'', ''a1''] mixed_catalog
       = [as_row (demo_track ''t3'' 30) ''seed_top'', as_row (demo_track ''t1'' 10) ''seed_top'']"
proof -
  have h: "artist_top_tracks mixed_sp 0 ''a0'' = Raises SpotifyException"
    "artist_related_artists mixed_sp 1 ''a0'' = Raises OtherException"
    by (simp_all add: mixed_sp_def)
  have r: "gen_calls failing_params mixed_sp [''a0'', ''a1'']
       = [TopTracks ''a0'', Related ''a0'', TopTracks ''a1'', Related ''a1'']"
    by (simp add: gen_calls_def failing_raw)
  show ?thesis
    using C7_provider_failure_is_zero_results
      [of mixed_sp 0 "''a0''" SpotifyException 6 init_state failing_params "''seed_top''"
          "[''a0'', ''a1'']" mixed_catalog]
      C7_provider_failure_is_zero_results
      [of mixed_sp 1 "''a0''" OtherException 6 init_state failing_params "''seed_top''"
          "[''a0'', ''a1'']" mixed_catalog]
      h r failing_run
    by simp
qed

subsection \<open>Related artists and the visited set\<close>

text \<open>
  Claim C4, as stated: for each seed the expander fetches the top tracks of the first
  \<open>related_per_seed\<close> related ids that are not yet visited. The source first cuts the
  related ids to the first \<open>RELATED_PER_SEED\<close> and only then skips the visited ones, so
  a visited id inside that window is not replaced by a later unvisited one. With seeds
  \<open>s1\<close>, \<open>s2\<close>, related artists \<open>[r1]\<close> of \<open>s1\<close> and \<open>[r1, r2]\<close> of \<open>s2\<close>, and
  \<open>RELATED_PER_SEED = 1\<close>, nothing is expanded for \<open>s2\<close>, where the claim names \<open>r2\<close>.
\<close>

theorem C4_counterexample:
  "0 < RELATED_PER_SEED shared_params
   \<and> used_artists (collect shared_params shared_sp [''s1'']) = {''r1''}
   \<and> dropna (map ar_id (get_related shared_sp 4 ''s2'')) = [''r1'', ''r2'']
   \<and> related_to_expand_spec (RELATED_PER_SEED shared_params)
        (used_artists (collect shared_params shared_sp [''s1''])) [''r1'', ''r2''] = [''r2'']
   \<and> expanded_related shared_params shared_sp ''s2'' (collect shared_params shared_sp [''s1'']) = []
   \<and> expanded_related shared_params shared_sp ''s2'' (collect shared_params shared_sp [''s1''])
       \<noteq> related_to_expand_spec (RELATED_PER_SEED shared_params)
            (used_artists (collect shared_params shared_sp [''s1''])) [''r1'', ''r2'']
   \<and> gen_calls shared_params shared_sp [''s1'', ''s2'']
       = [TopTracks ''s1'', Related ''s1'', TopTracks ''r1'', TopTracks ''s2'', Related ''s2'']"
proof -
  have a: "0 < RELATED_PER_SEED shared_params" by (simp add: shared_params_def)
  have b: "used_artists (collect shared_params shared_sp [''s1'']) = {''r1''}"
    by (simp add: shared_after_s1)
  have c: "dropna (map ar_id (get_related shared_sp 4 ''s2'')) = [''r1'', ''r2'']"
    by (simp add: get_related_def shared_sp_def)
  have d: "related_to_expand_spec (RELATED_PER_SEED shared_params) {''r1''} [''r1'', ''r2'']
      = [''r2'']"
    by (simp add: related_to_expand_spec_def py_take_def shared_params_def)
  have e: "expanded_related shared_params shared_sp ''s2''
      (collect shared_params shared_sp [''s1'']) = []"
    by (simp add: expanded_related_def shared_after_s1 shared_step_s2)
  from a b c d e shared_run_calls show ?thesis by simp
qed

text \<open>
  Claim C4, amended. When \<open>RELATED_PER_SEED > 0\<close>, for each seed the expander takes the
  first \<open>RELATED_PER_SEED\<close> related ids that are non-empty, in the provider's order;
  among these it skips the ids already in the visited set, and for each other one, at
  its first occurrence, it marks the id visited and fetches its top tracks, which are
  appended to the collected rows tagged \<open>by_related_top\<close>, after the seed's own rows
  tagged \<open>seed_top\<close>. All ids of that window are in the visited set afterwards. The
  visited set is one set for the run: each seed starts from the set the previous seed
  left, and the set only grows.
\<close>

theorem C4_related_window_then_skip_visited:
  assumes "0 < RELATED_PER_SEED cfg"
  shows "rel_ids_of cfg (get_related sp (Suc (length (calls s))) seed)
       = take (nat (RELATED_PER_SEED cfg))
           (filter (\<lambda>i. i \<noteq> []) (dropna (map ar_id (get_related sp (Suc (length (calls s))) seed))))
   \<and> calls (seed_step cfg sp seed s)
       = calls s @ [TopTracks seed, Related seed]
           @ map TopTracks (first_new (used_artists s)
               (rel_ids_of cfg (get_related sp (Suc (length (calls s))) seed)))
   \<and> expanded_related cfg sp seed s
       = first_new (used_artists s) (rel_ids_of cfg (get_related sp (Suc (length (calls s))) seed))
   \<and> used_artists (seed_step cfg sp seed s)
       = used_artists s \<union> set (rel_ids_of cfg (get_related sp (Suc (length (calls s))) seed))
   \<and> rows (seed_step cfg sp seed s)
       = rows s
         @ map (\<lambda>t. as_row t ''seed_top'')
             (tracks_from_artist sp (length (calls s)) seed (TOP_PER_ARTIST cfg))
         @ concat (map (\<lambda>(k, rid). map (\<lambda>t. as_row t ''by_related_top'')
                                   (tracks_from_artist sp k rid (TOP_PER_ARTIST cfg)))
             (enumerate (length (calls s) + 2)
                (first_new (used_artists s)
                   (rel_ids_of cfg (get_related sp (Suc (length (calls s))) seed)))))
   \<and> (\<forall>r \<in> set (drop (length (rows (fetch_rows cfg sp seed ''seed_top'' s)))
                   (rows (seed_step cfg sp seed s))). source r = ''by_related_top'')
   \<and> used_artists s \<subseteq> used_artists (seed_loop cfg sp seeds s)
   \<and> seed_loop cfg sp (seed # seeds) s
       = (if TARGET_TRACKS cfg * 2 \<le> int (length (rows (seed_step cfg sp seed s)))
          then seed_step cfg sp seed s
          else seed_loop cfg sp seeds (seed_step cfg sp seed s))"
proof -
  let ?ids = "rel_ids_of cfg (get_related sp (Suc (length (calls s))) seed)"
  let ?s1 = "fetch_rows cfg sp seed ''seed_top'' s"
  let ?s1' = "?s1\<lparr>calls := calls ?s1 @ [Related seed]\<rparr>"
  have step: "seed_step cfg sp seed s = related_loop cfg sp ?ids ?s1'"
    using assms by (simp add: seed_step_def Let_def fetch_rows_calls)
  have a: "?ids = take (nat (RELATED_PER_SEED cfg))
           (filter (\<lambda>i. i \<noteq> []) (dropna (map ar_id (get_related sp (Suc (length (calls s))) seed))))"
    using assms by (simp add: rel_ids_of_def py_take_def)
  have b: "calls (seed_step cfg sp seed s)
       = calls s @ [TopTracks seed, Related seed] @ map TopTracks (first_new (used_artists s) ?ids)"
    unfolding step related_loop_calls by (simp add: fetch_rows_calls fetch_rows_used)
  have c: "expanded_related cfg sp seed s = first_new (used_artists s) ?ids"
  proof -
    have "top_track_artists (map TopTracks xs) = xs" for xs
      by (induction xs) simp_all
    then show ?thesis unfolding expanded_related_def b by simp
  qed
  have d: "used_artists (seed_step cfg sp seed s) = used_artists s \<union> set ?ids"
    unfolding step related_loop_used by (simp add: fetch_rows_used)
  have rw: "rows (seed_step cfg sp seed s)
       = rows s
         @ map (\<lambda>t. as_row t ''seed_top'')
             (tracks_from_artist sp (length (calls s)) seed (TOP_PER_ARTIST cfg))
         @ concat (map (\<lambda>(k, rid). map (\<lambda>t. as_row t ''by_related_top'')
                                   (tracks_from_artist sp k rid (TOP_PER_ARTIST cfg)))
             (enumerate (length (calls s) + 2) (first_new (used_artists s) ?ids)))"
    using assms by (rule seed_step_rows_exact)
  obtain extra where e: "rows (related_loop cfg sp ?ids ?s1') = rows ?s1' @ extra"
      "\<forall>r\<in>set extra. source r = ''by_related_top''"
    using related_loop_rows[of cfg sp ?ids ?s1'] by blast
  have f: "\<forall>r \<in> set (drop (length (rows ?s1)) (rows (seed_step cfg sp seed s))).
      source r = ''by_related_top''"
    unfolding step e(1) using e(2) by simp
  have g: "used_artists s \<subseteq> used_artists (seed_loop cfg sp seeds s)"
    by (rule seed_loop_used_mono)
  have h: "seed_loop cfg sp (seed # seeds) s
       = (if TARGET_TRACKS cfg * 2 \<le> int (length (rows (seed_step cfg sp seed s)))
          then seed_step cfg sp seed s
          else seed_loop cfg sp seeds (seed_step cfg sp seed s))"
    by (simp add: Let_def)
  show ?thesis
    apply (intro conjI)
           apply (rule a)
          apply (rule b)
         apply (rule c)
        apply (rule d)
       apply (rule rw)
      apply (rule f)
     apply (rule g)
    apply (rule h)
    done
qed

theorem C4_witness:
  "0 < RELATED_PER_SEED shared_params
   \<and> rel_ids_of shared_params (get_related shared_sp (Suc (length (calls init_state))) ''s1'')
       = [''r1'']
   \<and> calls (seed_step shared_params shared_sp ''s1'' init_state)
       = [TopTracks ''s1'', Related ''s1'', TopTracks ''r1'']
   \<and> expanded_related shared_params shared_sp ''s1'' init_state = [''r1'']
   \<and> used_artists (seed_step shared_params shared_sp ''s1'' init_state) = {''r1''}
   \<and> rows (seed_step shared_params shared_sp ''s1'' init_state)
       = [as_row (demo_track ''s1-top'' 1) ''seed_top'',
          as_row (demo_track ''r1-top'' 1) ''by_related_top'']"
proof -
  have h: "0 < RELATED_PER_SEED shared_params" by (simp add: shared_params_def)
  have ids: "rel_ids_of shared_params (get_related shared_sp k ''s1'') = [''r1'']" for k
    by (simp add: rel_ids_of_def get_related_def shared_sp_def shared_params_def py_take_def)
  have u0: "used_artists init_state = {}" and c0: "calls init_state = []"
    and r0: "rows init_state = []"
    by (simp_all add: init_state_def)
  note t = C4_related_window_then_skip_visited[OF h, of shared_sp init_state "''s1''" "[]"]
  have c: "calls (seed_step shared_params shared_sp ''s1'' init_state)
       = [TopTracks ''s1'', Related ''s1'', TopTracks ''r1'']"
    using t[THEN conjunct2, THEN conjunct1] unfolding ids u0 c0 by simp
  have e: "expanded_related shared_params shared_sp ''s1'' init_state = [''r1'']"
    using t[THEN conjunct2, THEN conjunct2, THEN conjunct1] unfolding ids u0 by simp
  have u: "used_artists (seed_step shared_params shared_sp ''s1'' init_state) = {''r1''}"
    using t[THEN conjunct2, THEN conjunct2, THEN conjunct2, THEN conjunct1]
    unfolding ids u0 by simp
  have r: "rows (seed_step shared_params shared_sp ''s1'' init_state)
       = [as_row (demo_track ''s1-top'' 1) ''seed_top'',
          as_row (demo_track ''r1-top'' 1) ''by_related_top'']"
    using t[THEN conjunct2, THEN conjunct2, THEN conjunct2, THEN conjunct2, THEN conjunct1]
    unfolding ids u0 c0 r0 shared_tracks by simp
  from h ids c e u r show ?thesis by blast
qed

subsection \<open>Configuration values\<close>

text \<open>
  Claim C9, as stated: an invalid numeric knob, such as \<open>TARGET_TRACKS = 0\<close>, makes the
  run fail before any provider call. The source never inspects the constants: with
  \<open>TARGET_TRACKS = 0\<close> and two seeds, the run asks the provider for the first seed's top
  tracks and related artists and returns a list, which is empty.
\<close>

theorem C9_counterexample:
  "TARGET_TRACKS zero_params = 0
   \<and> gen_calls zero_params mixed_sp [''a1'', ''a2''] = [TopTracks ''a1'', Related ''a1'']
   \<and> gen_calls zero_params mixed_sp [''a1'', ''a2''] \<noteq> []
   \<and> gen_for_seeds zero_params mixed_sp [''a1'', ''a2''] mixed_catalog = []"
proof -
  have h: "TARGET_TRACKS zero_params = 0" by (simp add: zero_params_def)
  have g: "gen_for_seeds zero_params mixed_sp [''a1'', ''a2''] mixed_catalog = []"
    unfolding gen_for_seeds_def by (rule post_process_zero[OF h])
  from h g zero_calls show ?thesis by simp
qed

text \<open>
  Claim C9, amended. An invalid numeric knob is not rejected before the provider is
  called. For a non-empty seed list the first provider call of \<open>gen_for_seeds\<close> is the
  top-tracks call for the first seed, whatever integer values the knobs have, so also
  for a zero or negative \<open>TARGET_TRACKS\<close>. With \<open>TARGET_TRACKS \<le> 0\<close> the seed loop stops
  after the first seed, and with \<open>TARGET_TRACKS = 0\<close> the run returns the empty list.
\<close>

theorem C9_knobs_are_not_validated:
  "(\<exists>cs. gen_calls cfg sp (seed # seeds) = TopTracks seed # cs)
   \<and> (TARGET_TRACKS cfg \<le> 0 \<longrightarrow> collect cfg sp (seed # seeds) = collect cfg sp [seed])
   \<and> (TARGET_TRACKS cfg = 0 \<longrightarrow> gen_for_seeds cfg sp (seed # seeds) catalog = [])"
proof -
  obtain cs where cs: "calls (seed_step cfg sp seed init_state) = TopTracks seed # cs"
    using seed_step_calls[of cfg sp seed init_state] by (auto simp: init_state_def)
  have a: "\<exists>cs. gen_calls cfg sp (seed # seeds) = TopTracks seed # cs"
  proof (cases "TARGET_TRACKS cfg * 2 \<le> int (length (rows (seed_step cfg sp seed init_state)))")
    case True
    then show ?thesis using cs by (simp add: gen_calls_def collect_def Let_def)
  next
    case False
    obtain cs' where "calls (seed_loop cfg sp seeds (seed_step cfg sp seed init_state))
        = calls (seed_step cfg sp seed init_state) @ cs'"
      using seed_loop_calls_extend by blast
    with False cs show ?thesis by (simp add: gen_calls_def collect_def Let_def)
  qed
  have b: "TARGET_TRACKS cfg \<le> 0 \<longrightarrow> collect cfg sp (seed # seeds) = collect cfg sp [seed]"
    by (simp add: collect_def Let_def)
  have c: "TARGET_TRACKS cfg = 0 \<longrightarrow> gen_for_seeds cfg sp (seed # seeds) catalog = []"
    by (simp add: gen_for_seeds_def post_process_zero)
  from a b c show ?thesis by blast
qed

theorem C9_witness:
  "TARGET_TRACKS zero_params \<le> 0
   \<and> TARGET_TRACKS zero_params = 0
   \<and> gen_calls zero_params mixed_sp [''a1'', ''a2''] = [TopTracks ''a1'', Related ''a1'']
   \<and> collect zero_params mixed_sp [''a1'', ''a2''] = collect zero_params mixed_sp [''a1'']
   \<and> gen_for_seeds zero_params mixed_sp [''a1'', ''a2''] mixed_catalog = []"
proof -
  have h: "TARGET_TRACKS zero_params = 0" by (simp add: zero_params_def)
  show ?thesis
    using C9_knobs_are_not_validated[of zero_params mixed_sp "''a1''" "[''a2'']" mixed_catalog]
      h zero_calls
    by simp
qed

section \<open>Properties of the catalog and the profile\<close>

subsection \<open>Auxiliary facts\<close>

lemma drop_duplicates_loop_filter:
  "filter (\<lambda>x. c_track_id x = t) (drop_duplicates_loop ys seen)
     = (if t \<in> seen then []
        else case find (\<lambda>x. c_track_id x = t) ys of None \<Rightarrow> [] | Some r \<Rightarrow> [r])"
proof (induction ys arbitrary: seen)
  case Nil
  then show ?case by simp
next
  case (Cons y ys)
  show ?case
  proof (cases "c_track_id y \<in> seen")
    case True
    then show ?thesis using Cons[of seen] by auto
  next
    case False
    then show ?thesis using Cons[of "insert (c_track_id y) seen"] by auto
  qed
qed

lemma drop_duplicates_loop_distinct:
  "distinct (map c_track_id (drop_duplicates_loop ys seen))
   \<and> c_track_id ` set (drop_duplicates_loop ys seen) \<inter> seen = {}"
proof (induction ys arbitrary: seen)
  case Nil
  then show ?case by simp
next
  case (Cons y ys)
  show ?case
    using Cons[of seen] Cons[of "insert (c_track_id y) seen"] by auto
qed

lemma drop_duplicates_loop_subset: "set (drop_duplicates_loop ys seen) \<subseteq> set ys"
  by (induction ys arbitrary: seen) auto

lemma first_of_sorted_has_max_weight:
  "sorted (map ckey ys) \<Longrightarrow> find (\<lambda>x. c_track_id x = t) ys = Some r
   \<Longrightarrow> x \<in> set ys \<Longrightarrow> c_track_id x = t \<Longrightarrow> c_weight x \<le> c_weight r"
proof (induction ys)
  case Nil
  then show ?case by simp
next
  case (Cons y ys)
  show ?case
  proof (cases "c_track_id y = t")
    case True
    with Cons.prems have r: "r = y" by simp
    show ?thesis
    proof (cases "x = y")
      case True
      with r show ?thesis by simp
    next
      case False
      with Cons.prems have "x \<in> set ys" by simp
      with Cons.prems(1) have "ckey y \<le> ckey x" by auto
      with True Cons.prems(4) r show ?thesis by simp
    qed
  next
    case False
    with Cons.prems have "find (\<lambda>x. c_track_id x = t) ys = Some r" "x \<in> set ys" "sorted (map ckey ys)"
      by auto
    with Cons.IH Cons.prems(4) show ?thesis by blast
  qed
qed

lemma find_Some_mem: "find P xs = Some r \<Longrightarrow> r \<in> set xs \<and> P r"
  by (induction xs) (auto split: if_splits)

lemma canonicalize_one_per_track:
  assumes "t \<in> c_track_id ` set all_rows"
  shows "\<exists>r. filter (\<lambda>x. c_track_id x = t) (canonicalize all_rows) = [r]
           \<and> r \<in> set all_rows \<and> c_track_id r = t
           \<and> (\<forall>x \<in> set all_rows. c_track_id x = t \<longrightarrow> c_weight x \<le> c_weight r)"
proof -
  let ?ys = "sort_key ckey all_rows"
  have "\<exists>x \<in> set ?ys. c_track_id x = t" using assms by auto
  then obtain r where r: "find (\<lambda>x. c_track_id x = t) ?ys = Some r"
    by (cases "find (\<lambda>x. c_track_id x = t) ?ys") (auto simp: find_None_iff)
  then have rin: "r \<in> set all_rows" "c_track_id r = t"
    using find_Some_mem[of "\<lambda>x. c_track_id x = t" ?ys r] by simp_all
  have f: "filter (\<lambda>x. c_track_id x = t) (canonicalize all_rows) = [r]"
    unfolding canonicalize_def drop_duplicates_def drop_duplicates_loop_filter using r by simp
  have s: "sorted (map ckey ?ys)" by simp
  have m: "c_weight x \<le> c_weight r" if "x \<in> set all_rows" "c_track_id x = t" for x
    using first_of_sorted_has_max_weight[OF s r, of x] that by simp
  from f rin m show ?thesis by auto
qed

lemma two_sources_same_track:
  assumes "in_track_id s = in_track_id r"
  shows "\<exists>kept. build_catalog [s] [] [r] artists = Some [kept]
     \<and> c_track_id kept = in_track_id r \<and> c_source kept = ''recent'' \<and> c_weight kept = 22 / 10"
  using assms
  by (simp add: build_catalog_def canonicalize_def drop_duplicates_def merge_artists_def
      saved_rows_def top_rows_def recent_rows_def)

lemma counter_add_by_plus: "counter_add_by (+) acc k w = counter_add acc k w"
  by (induction acc k w rule: counter_add.induct) simp_all

lemma artist_counter_loop_by_plus:
  "artist_counter_loop_by (+) rs acc = artist_counter_loop rs acc"
  by (induction rs arbitrary: acc) (simp_all add: Let_def counter_add_by_plus)

lemma artist_counter_by_plus: "artist_counter_by (+) rs = artist_counter rs"
  by (simp add: artist_counter_by_def artist_counter_def artist_counter_loop_by_plus)

lemma counter_add_by_keys:
  "map fst (counter_add_by fadd acc k w)
     = (if k \<in> fst ` set acc then map fst acc else map fst acc @ [k])"
  by (induction fadd acc k w rule: counter_add_by.induct) auto

lemma counter_add_by_key_set:
  "fst ` set (counter_add_by fadd acc k w) = insert k (fst ` set acc)"
proof -
  have "set (map fst (counter_add_by fadd acc k w)) = insert k (set (map fst acc))"
    unfolding counter_add_by_keys by auto
  then show ?thesis by simp
qed

lemma counter_add_by_map_of:
  "map_of (counter_add_by fadd acc k w) k'
     = (if k' = k then Some (fadd (case map_of acc k of None \<Rightarrow> 0 | Some v \<Rightarrow> v) w)
        else map_of acc k')"
  by (induction fadd acc k w rule: counter_add_by.induct) auto

lemma artist_counter_loop_by_keys:
  "fst ` set (artist_counter_loop_by fadd rs acc)
     = fst ` set acc \<union> (\<lambda>r. (c_artist_id r, c_artist_name r)) ` {r \<in> set rs. c_artist_id r \<noteq> []}"
proof (induction rs arbitrary: acc)
  case Nil
  then show ?case by simp
next
  case (Cons r rs)
  show ?case
    by (cases "c_artist_id r = []") (auto simp: Cons Let_def counter_add_by_key_set)
qed

lemma artist_counter_loop_by_distinct:
  "distinct (map fst acc) \<Longrightarrow> distinct (map fst (artist_counter_loop_by fadd rs acc))"
proof (induction rs arbitrary: acc)
  case Nil
  then show ?case by simp
next
  case (Cons r rs)
  have "distinct (map fst (counter_add_by fadd acc k w))" for k w
    using Cons.prems by (auto simp: counter_add_by_keys)
  with Cons show ?case by (simp add: Let_def)
qed

lemma artist_counter_loop_by_map_of:
  "map_of (artist_counter_loop_by fadd rs acc) k
     = (case map_of acc k of
          None \<Rightarrow> (if weights_of k rs = [] then None else Some (foldl fadd 0 (weights_of k rs)))
        | Some v \<Rightarrow> Some (foldl fadd v (weights_of k rs)))"
proof (induction rs arbitrary: acc)
  case Nil
  then show ?case by (simp split: option.splits)
next
  case (Cons r rs)
  show ?case
  proof (cases "c_artist_id r \<noteq> [] \<and> (c_artist_id r, c_artist_name r) = k")
    case True
    let ?acc = "counter_add_by fadd acc k (row_weight r)"
    have step: "artist_counter_loop_by fadd (r # rs) acc = artist_counter_loop_by fadd rs ?acc"
      using True by (auto simp: Let_def)
    have m: "map_of ?acc k
        = Some (fadd (case map_of acc k of None \<Rightarrow> 0 | Some v \<Rightarrow> v) (row_weight r))"
      by (simp add: counter_add_by_map_of)
    have w: "weights_of k (r # rs) = row_weight r # weights_of k rs"
      using True by simp
    show ?thesis
      unfolding step Cons[of ?acc] m w by (simp split: option.splits)
  next
    case False
    let ?acc = "if c_artist_id r \<noteq> []
                then counter_add_by fadd acc (c_artist_id r, c_artist_name r) (row_weight r)
                else acc"
    have step: "artist_counter_loop_by fadd (r # rs) acc = artist_counter_loop_by fadd rs ?acc"
      by (simp add: Let_def)
    have m: "map_of ?acc k = map_of acc k"
      using False by (auto simp: counter_add_by_map_of)
    have w: "weights_of k (r # rs) = weights_of k rs"
      using False by auto
    show ?thesis
      unfolding step Cons[of ?acc] m w ..
  qed
qed

lemma artist_counter_by_two_rows_same:
  "c_artist_id r1 = c_artist_id r2 \<and> c_artist_id r1 \<noteq> [] \<and> c_artist_name r1 = c_artist_name r2
   \<Longrightarrow> artist_counter_by fadd [r1, r2]
       = [((c_artist_id r1, c_artist_name r1), fadd (fadd 0 (row_weight r1)) (row_weight r2))]"
  by (auto simp: artist_counter_by_def Let_def)

lemma artist_counter_by_two_rows_diff:
  "c_artist_id r1 = c_artist_id r2 \<and> c_artist_id r1 \<noteq> [] \<and> c_artist_name r1 \<noteq> c_artist_name r2
   \<Longrightarrow> artist_counter_by fadd [r1, r2]
       = [((c_artist_id r1, c_artist_name r1), fadd 0 (row_weight r1)),
          ((c_artist_id r2, c_artist_name r2), fadd 0 (row_weight r2))]"
  by (auto simp: artist_counter_by_def Let_def)

lemma trim_right_idem:
  "rev (dropWhile P (rev (rev (dropWhile P (rev u))))) = rev (dropWhile P (rev u))"
  by (simp add: dropWhile_idem)

lemma trim_right_prefix: "\<exists>zs. u = rev (dropWhile P (rev u)) @ zs"
proof -
  have "rev u = takeWhile P (rev u) @ dropWhile P (rev u)" by simp
  then have "rev (rev u) = rev (takeWhile P (rev u) @ dropWhile P (rev u))" by simp
  then have "u = rev (dropWhile P (rev u)) @ rev (takeWhile P (rev u))"
    by (simp only: rev_rev_ident rev_append)
  then show ?thesis by blast
qed

lemma trim_right_keeps_head:
  assumes "u = [] \<or> \<not> P (hd u)"
  shows "dropWhile P (rev (dropWhile P (rev u))) = rev (dropWhile P (rev u))"
proof (cases "rev (dropWhile P (rev u)) = []")
  case True
  show ?thesis unfolding True by simp
next
  case False
  obtain zs where zs: "u = rev (dropWhile P (rev u)) @ zs"
    using trim_right_prefix[of u P] by blast
  from False have "u \<noteq> []" by auto
  with assms have h: "\<not> P (hd u)" by simp
  from zs False have "hd u = hd (rev (dropWhile P (rev u)))" by (metis hd_append2)
  with h have "\<not> P (hd (rev (dropWhile P (rev u))))" by simp
  then show ?thesis by (simp only: dropWhile_eq_self_iff) simp
qed

lemma strip_idem: "strip (strip s) = strip s"
proof -
  have "dropWhile is_space s = [] \<or> \<not> is_space (hd (dropWhile is_space s))"
    using hd_dropWhile[of is_space s] by blast
  then have "dropWhile is_space (strip s) = strip s"
    unfolding strip_def by (rule trim_right_keeps_head)
  then have "strip (strip s) = rev (dropWhile is_space (rev (strip s)))"
    by (simp add: strip_def[of "strip s"])
  also have "\<dots> = strip s"
    unfolding strip_def by (rule trim_right_idem)
  finally show ?thesis .
qed

lemma split_genres_token:
  "g \<in> set (split_genres x) \<Longrightarrow> g \<noteq> [] \<and> strip g = g"
  by (auto simp: split_genres_def strip_idem split: option.splits if_splits)

lemma glist_of_token:
  "g \<in> set (glist_of x) \<Longrightarrow> g \<noteq> [] \<and> strip g = g \<and> lower g \<noteq> ''nan''"
  by (auto simp: glist_of_def strip_idem split: option.splits if_splits)

lemma genres_map_loop_tokens:
  "\<forall>a gl g. gm a = Some gl \<longrightarrow> g \<in> set gl \<longrightarrow> g \<noteq> [] \<and> strip g = g \<and> lower g \<noteq> ''nan''
   \<Longrightarrow> \<forall>a gl g. genres_map_loop arts gm a = Some gl \<longrightarrow> g \<in> set gl
         \<longrightarrow> g \<noteq> [] \<and> strip g = g \<and> lower g \<noteq> ''nan''"
proof (induction arts arbitrary: gm)
  case Nil
  then show ?case by simp
next
  case (Cons row rest)
  let ?gm = "gm(am_artist_id row \<mapsto> glist_of (am_genres row))"
  have inv: "\<forall>a gl g. ?gm a = Some gl \<longrightarrow> g \<in> set gl
      \<longrightarrow> g \<noteq> [] \<and> strip g = g \<and> lower g \<noteq> ''nan''"
  proof (intro allI impI)
    fix a gl g
    assume h: "?gm a = Some gl" "g \<in> set gl"
    show "g \<noteq> [] \<and> strip g = g \<and> lower g \<noteq> ''nan''"
    proof (cases "a = am_artist_id row")
      case True
      with h(1) have "gl = glist_of (am_genres row)" by simp
      with h(2) show ?thesis using glist_of_token by blast
    next
      case False
      with h(1) have "gm a = Some gl" by simp
      with Cons.prems h(2) show ?thesis by blast
    qed
  qed
  show ?case
    unfolding genres_map_loop.simps by (rule Cons.IH[OF inv])
qed

lemma genres_map_tokens:
  assumes "genres_map_from_artists artists_df a = Some gl" "g \<in> set gl"
  shows "g \<noteq> [] \<and> strip g = g \<and> lower g \<noteq> ''nan''"
proof -
  have "\<forall>a gl g. (Map.empty :: string \<rightharpoonup> string list) a = Some gl \<longrightarrow> g \<in> set gl
      \<longrightarrow> g \<noteq> [] \<and> strip g = g \<and> lower g \<noteq> ''nan''"
    by simp
  from genres_map_loop_tokens[OF this, of artists_df] assms
  show ?thesis unfolding genres_map_from_artists_def by blast
qed

lemma split_genres_rock_nan: "split_genres (Some ''rock,nan'') = [''rock'', ''nan'']"
  by (simp add: split_genres_def strip_def is_space_def)

lemma one_track_twice_catalog:
  "build_catalog [one_track_twice] [] [one_track_twice] []
     = Some [\<lparr>c_track_id = ''t1'', c_artist_id = ''a1'', c_artist_name = ''A'',
              c_source = ''recent'', c_weight = 22 / 10, c_genres = Some []\<rparr>]"
  by (simp add: build_catalog_def canonicalize_def drop_duplicates_def merge_artists_def
      saved_rows_def top_rows_def recent_rows_def one_track_twice_def)

lemma two_names_counter:
  "artist_counter two_names = [((''a1'', ''Abba''), 1), ((''a1'', ''ABBA''), 1)]"
  by (simp add: artist_counter_def two_names_def row_weight_def Let_def)

subsection \<open>Canonical catalog\<close>

text \<open>
  Claim C5. After the batches are merged, \<open>canonicalize\<close> keeps, for every \<open>track_id\<close>
  that occurs in the merged rows, exactly one row, which is one of the merged rows of
  that \<open>track_id\<close> and whose weight is the highest among them; it keeps nothing else.
  For a saved record (weight 1.0) and a recently played record (weight 2.2) of the same
  \<open>track_id\<close>, the catalog that \<open>main\<close> writes consists of the recently played variant
  with weight 2.2 only.
\<close>

theorem C5_canonical_catalog_keeps_highest_weight:
  "(\<forall>t \<in> c_track_id ` set all_rows.
      \<exists>r. filter (\<lambda>x. c_track_id x = t) (canonicalize all_rows) = [r]
         \<and> r \<in> set all_rows \<and> c_track_id r = t
         \<and> (\<forall>x \<in> set all_rows. c_track_id x = t \<longrightarrow> c_weight x \<le> c_weight r))
   \<and> set (canonicalize all_rows) \<subseteq> set all_rows
   \<and> distinct (map c_track_id (canonicalize all_rows))
   \<and> (in_track_id s = in_track_id p
        \<longrightarrow> c_weight ` set (saved_rows [s]) = {1} \<and> c_weight ` set (recent_rows [p]) = {22 / 10}
          \<and> (\<exists>kept. build_catalog [s] [] [p] artists = Some [kept]
                \<and> c_track_id kept = in_track_id p \<and> c_source kept = ''recent''
                \<and> c_weight kept = 22 / 10))"
proof -
  have a: "\<forall>t \<in> c_track_id ` set all_rows.
      \<exists>r. filter (\<lambda>x. c_track_id x = t) (canonicalize all_rows) = [r]
         \<and> r \<in> set all_rows \<and> c_track_id r = t
         \<and> (\<forall>x \<in> set all_rows. c_track_id x = t \<longrightarrow> c_weight x \<le> c_weight r)"
    using canonicalize_one_per_track by blast
  have b: "set (canonicalize all_rows) \<subseteq> set all_rows"
    using drop_duplicates_loop_subset[of "sort_key ckey all_rows" "{}"]
    by (simp add: canonicalize_def drop_duplicates_def)
  have c: "distinct (map c_track_id (canonicalize all_rows))"
    using drop_duplicates_loop_distinct[of "sort_key ckey all_rows" "{}"]
    by (simp add: canonicalize_def drop_duplicates_def)
  have d: "c_weight ` set (saved_rows [s]) = {1} \<and> c_weight ` set (recent_rows [p]) = {22 / 10}"
    by (simp add: saved_rows_def recent_rows_def)
  have e: "\<exists>kept. build_catalog [s] [] [p] artists = Some [kept]
                \<and> c_track_id kept = in_track_id p \<and> c_source kept = ''recent''
                \<and> c_weight kept = 22 / 10"
    if "in_track_id s = in_track_id p"
    using that by (rule two_sources_same_track)
  from a b c d e show ?thesis by blast
qed

theorem C5_witness:
  "in_track_id one_track_twice = in_track_id one_track_twice
   \<and> build_catalog [one_track_twice] [] [one_track_twice] []
     = Some [\<lparr>c_track_id = ''t1'', c_artist_id = ''a1'', c_artist_name = ''A'',
              c_source = ''recent'', c_weight = 22 / 10, c_genres = Some []\<rparr>]
   \<and> ''t1'' \<in> c_track_id ` set (saved_rows [one_track_twice] @ recent_rows [one_track_twice])
   \<and> length (filter (\<lambda>x. c_track_id x = ''t1'')
        (canonicalize (saved_rows [one_track_twice] @ recent_rows [one_track_twice]))) = 1"
proof -
  let ?all = "saved_rows [one_track_twice] @ recent_rows [one_track_twice]"
  note t = C5_canonical_catalog_keeps_highest_weight
      [of ?all one_track_twice one_track_twice "[]"]
  have m: "''t1'' \<in> c_track_id ` set ?all"
    by (simp add: saved_rows_def recent_rows_def one_track_twice_def)
  from t m obtain r where "filter (\<lambda>x. c_track_id x = ''t1'') (canonicalize ?all) = [r]"
    by blast
  then have "length (filter (\<lambda>x. c_track_id x = ''t1'') (canonicalize ?all)) = 1"
    by simp
  with m one_track_twice_catalog show ?thesis by simp
qed

subsection \<open>Artist scores\<close>

text \<open>
  Claim C6, as stated: the artist accumulator is keyed by \<open>artist_id\<close> alone, so two
  retained records with one \<open>artist_id\<close> and different \<open>artist_name\<close> strings share
  one entry. The source keys the counter by the pair \<open>(a_id, a_nm)\<close>: the two rows of
  \<open>two_names\<close>, both of artist \<open>a1\<close>, give two entries.
\<close>

theorem C6_counterexample:
  "map c_artist_id two_names = [''a1'', ''a1'']
   \<and> map c_track_id two_names = [''t1'', ''t2'']
   \<and> artist_counter two_names = [((''a1'', ''Abba''), 1), ((''a1'', ''ABBA''), 1)]
   \<and> length (artist_counter two_names) = 2"
  by (simp add: two_names_counter) (simp add: two_names_def)

text \<open>
  Claim C6, amended. The artist accumulator is keyed by the pair of \<open>artist_id\<close> and
  \<open>artist_name\<close>: it has exactly one entry for each such pair that occurs in a retained
  record with a non-empty \<open>artist_id\<close>, and the entry holds the weights of the records
  of that pair, added in record order starting from 0. So two retained records with the
  same \<open>artist_id\<close> and the same name accumulate their weights into a single entry; two
  with the same \<open>artist_id\<close> and different names give two entries, each holding the
  weight of its own record. The statement holds for any addition \<open>fadd\<close>, in particular
  for the floating-point addition of the source.
\<close>

theorem C6_artist_counter_keyed_by_id_and_name:
  "fst ` set (artist_counter_by fadd all_rows)
     = (\<lambda>r. (c_artist_id r, c_artist_name r)) ` {r \<in> set all_rows. c_artist_id r \<noteq> []}
   \<and> distinct (map fst (artist_counter_by fadd all_rows))
   \<and> map_of (artist_counter_by fadd all_rows) (a, n)
       = (if weights_of (a, n) all_rows = [] then None
          else Some (foldl fadd 0 (weights_of (a, n) all_rows)))
   \<and> (c_artist_id r1 = c_artist_id r2 \<and> c_artist_id r1 \<noteq> []
        \<and> c_artist_name r1 = c_artist_name r2
      \<longrightarrow> artist_counter_by fadd [r1, r2]
            = [((c_artist_id r1, c_artist_name r1),
                fadd (fadd 0 (row_weight r1)) (row_weight r2))])
   \<and> (c_artist_id r1 = c_artist_id r2 \<and> c_artist_id r1 \<noteq> []
        \<and> c_artist_name r1 \<noteq> c_artist_name r2
      \<longrightarrow> artist_counter_by fadd [r1, r2]
            = [((c_artist_id r1, c_artist_name r1), fadd 0 (row_weight r1)),
               ((c_artist_id r2, c_artist_name r2), fadd 0 (row_weight r2))])
   \<and> artist_counter all_rows = artist_counter_by (+) all_rows"
proof -
  have a: "fst ` set (artist_counter_by fadd all_rows)
     = (\<lambda>r. (c_artist_id r, c_artist_name r)) ` {r \<in> set all_rows. c_artist_id r \<noteq> []}"
    using artist_counter_loop_by_keys[of fadd all_rows "[]"] by (simp add: artist_counter_by_def)
  have b: "distinct (map fst (artist_counter_by fadd all_rows))"
    using artist_counter_loop_by_distinct[of "[]" fadd all_rows]
    by (simp add: artist_counter_by_def)
  have c: "map_of (artist_counter_by fadd all_rows) (a, n)
       = (if weights_of (a, n) all_rows = [] then None
          else Some (foldl fadd 0 (weights_of (a, n) all_rows)))"
    unfolding artist_counter_by_def artist_counter_loop_by_map_of by simp
  have d: "c_artist_id r1 = c_artist_id r2 \<and> c_artist_id r1 \<noteq> []
        \<and> c_artist_name r1 = c_artist_name r2
      \<longrightarrow> artist_counter_by fadd [r1, r2]
            = [((c_artist_id r1, c_artist_name r1),
                fadd (fadd 0 (row_weight r1)) (row_weight r2))]"
    using artist_counter_by_two_rows_same by blast
  have e: "c_artist_id r1 = c_artist_id r2 \<and> c_artist_id r1 \<noteq> []
        \<and> c_artist_name r1 \<noteq> c_artist_name r2
      \<longrightarrow> artist_counter_by fadd [r1, r2]
            = [((c_artist_id r1, c_artist_name r1), fadd 0 (row_weight r1)),
               ((c_artist_id r2, c_artist_name r2), fadd 0 (row_weight r2))]"
    using artist_counter_by_two_rows_diff by blast
  have f: "artist_counter all_rows = artist_counter_by (+) all_rows"
    by (simp add: artist_counter_by_plus)
  show ?thesis
    apply (intro conjI)
         apply (rule a)
        apply (rule b)
       apply (rule c)
      apply (rule d)
     apply (rule e)
    apply (rule f)
    done
qed

theorem C6_witness:
  "c_artist_id (two_names ! 0) = c_artist_id (two_names ! 1)
   \<and> c_artist_id (two_names ! 0) \<noteq> []
   \<and> c_artist_name (two_names ! 0) \<noteq> c_artist_name (two_names ! 1)
   \<and> artist_counter_by (+) [two_names ! 0, two_names ! 1]
       = [((''a1'', ''Abba''), 1), ((''a1'', ''ABBA''), 1)]
   \<and> artist_counter_by (+) [two_names ! 0, two_names ! 0] = [((''a1'', ''Abba''), 2)]
   \<and> map_of (artist_counter_by (+) two_names) (''a1'', ''ABBA'') = Some 1"
proof -
  have h: "c_artist_id (two_names ! 0) = c_artist_id (two_names ! 1)"
    "c_artist_id (two_names ! 0) \<noteq> []"
    "c_artist_name (two_names ! 0) \<noteq> c_artist_name (two_names ! 1)"
    and v: "c_artist_id (two_names ! 0) = ''a1''" "c_artist_name (two_names ! 0) = ''Abba''"
    "c_artist_id (two_names ! 1) = ''a1''" "c_artist_name (two_names ! 1) = ''ABBA''"
    "row_weight (two_names ! 0) = 1" "row_weight (two_names ! 1) = 1"
    by (simp_all add: two_names_def row_weight_def)
  note diff = C6_artist_counter_keyed_by_id_and_name
      [where fadd = "(+)" and all_rows = two_names and a = "''a1''" and n = "''ABBA''"
         and ?r1.0 = "two_names ! 0" and ?r2.0 = "two_names ! 1"]
  note same = C6_artist_counter_keyed_by_id_and_name
      [where fadd = "(+)" and all_rows = two_names and a = "''a1''" and n = "''ABBA''"
         and ?r1.0 = "two_names ! 0" and ?r2.0 = "two_names ! 0"]
  have d: "artist_counter_by (+) [two_names ! 0, two_names ! 1]
       = [((c_artist_id (two_names ! 0), c_artist_name (two_names ! 0)),
           0 + row_weight (two_names ! 0)),
          ((c_artist_id (two_names ! 1), c_artist_name (two_names ! 1)),
           0 + row_weight (two_names ! 1))]"
    using diff h by blast
  have s: "artist_counter_by (+) [two_names ! 0, two_names ! 0]
       = [((c_artist_id (two_names ! 0), c_artist_name (two_names ! 0)),
           0 + row_weight (two_names ! 0) + row_weight (two_names ! 0))]"
    using same h(2) by blast
  have w: "weights_of (''a1'', ''ABBA'') two_names = [1]"
    by (simp add: two_names_def row_weight_def)
  have m: "map_of (artist_counter_by (+) two_names) (''a1'', ''ABBA'') = Some 1"
    using diff[THEN conjunct2, THEN conjunct2, THEN conjunct1] unfolding w by simp
  have d': "artist_counter_by (+) [two_names ! 0, two_names ! 1]
       = [((''a1'', ''Abba''), 1), ((''a1'', ''ABBA''), 1)]"
    using d unfolding v by simp
  have s': "artist_counter_by (+) [two_names ! 0, two_names ! 0] = [((''a1'', ''Abba''), 2)]"
    using s unfolding v by simp
  from h d' s' m show ?thesis by blast
qed

subsection \<open>Genre tokens\<close>

text \<open>
  Claim C8. No genre token used in a score or count is blank or equal to \<open>nan\<close> without
  regard to case, in the genre accumulator of \<open>build_catalog.py\<close> and in the artist-to-genre
  lookup of \<open>compare_recs.py\<close>. The lookup satisfies this (\<open>genres_map_tokens\<close>), and the
  tokens of \<open>split_genres\<close> are never blank (\<open>split_genres_token\<close>). But \<open>split_genres\<close>
  has no test for \<open>nan\<close>: for the genre string \<open>rock,nan\<close> it returns the token \<open>nan\<close>,
  which the genre accumulator then counts, while the lookup drops it.
\<close>

theorem C8_split_genres_keeps_nan_token:
  "split_genres (Some ''rock,nan'') = [''rock'', ''nan'']
   \<and> lower ''nan'' = ''nan''
   \<and> genre_counter two_names = [(''rock'', 2), (''nan'', 2)]
   \<and> glist_of (Some ''rock,nan'') = [''rock'']"
proof -
  have a: "lower ''nan'' = ''nan''" by code_simp
  have b: "genre_counter two_names = [(''rock'', 2), (''nan'', 2)]"
    by (simp add: genre_counter_def two_names_def split_genres_rock_nan row_weight_def)
  have c: "glist_of (Some ''rock,nan'') = [''rock'']" by code_simp
  from a b c split_genres_rock_nan show ?thesis by blast
qed

end
